theory Spec2Isabelle
  imports Complex_Main "HOL-Library.AList" "HOL-Library.Word"
begin

section \<open>Values exchanged with the coreBOS web service\<close>

text \<open>
  \<^verbatim>\<open>json.Unmarshal\<close> decodes a body into \<^verbatim>\<open>map[string]interface{}\<close>: numbers become
  \<^verbatim>\<open>float64\<close> (the library only stores them), objects become Go maps and arrays become
  slices. A Go map is modelled as an association list read with \<open>map_of\<close>; the order of the
  list is the order in which \<^verbatim>\<open>range\<close> happens to visit the map, which Go leaves unspecified.
  The keys of a Go map are pairwise distinct, and so are the keys of the lists that stand for
  one.
\<close>

type_synonym float64 = real

datatype json =
    JNull
  | JBool bool
  | JNum float64
  | JStr string
  | JArr "json list"
  | JObj "(string \<times> json) list"

type_synonym jobj = "(string \<times> json) list"

text \<open>
  A type assertion \<^verbatim>\<open>x.(T)\<close> without the comma-ok form panics when the dynamic type is
  not \<^verbatim>\<open>T\<close>, also when \<^verbatim>\<open>x\<close> is the nil interface that a missing map key yields.
  \<open>None\<close> stands for that panic.
\<close>

fun assertMap :: "json option \<Rightarrow> jobj option" where
  "assertMap (Some (JObj m)) = Some m"
| "assertMap _ = None"

fun assertSlice :: "json option \<Rightarrow> json list option" where
  "assertSlice (Some (JArr xs)) = Some xs"
| "assertSlice _ = None"

fun assertString :: "json option \<Rightarrow> string option" where
  "assertString (Some (JStr s)) = Some s"
| "assertString _ = None"

fun assertFloat64 :: "json option \<Rightarrow> float64 option" where
  "assertFloat64 (Some (JNum x)) = Some x"
| "assertFloat64 _ = None"

fun assertBool :: "json option \<Rightarrow> bool option" where
  "assertBool (Some (JBool b)) = Some b"
| "assertBool _ = None"

text \<open>
  Go errors, by where they are made: \<^verbatim>\<open>errors.New\<close> in this library, the HTTP client
  (\<^verbatim>\<open>netClient.Get/Post\<close>, \<^verbatim>\<open>ioutil.ReadAll\<close>), or \<^verbatim>\<open>json.Unmarshal\<close>.
  \<open>Error\<close> is the text of the error.
\<close>

datatype error =
    errors_New string
  | TransportError string
  | DecodeError string

fun Error :: "error \<Rightarrow> string" where
  "Error (errors_New s) = s"
| "Error (TransportError s) = s"
| "Error (DecodeError s) = s"

text \<open>A call either panics or returns its Go result tuple.\<close>

datatype 'a outcome = Panic | Return 'a

section \<open>The HTTP collaborator\<close>

text \<open>
  \<^verbatim>\<open>url.Values\<close> is \<^verbatim>\<open>map[string][]string\<close>. \<open>Values_Get\<close> and \<open>Values_Set\<close> are its
  \<^verbatim>\<open>Get\<close> (first value or the empty string) and \<^verbatim>\<open>Set\<close> (replace by one value).
\<close>

type_synonym Values = "(string \<times> string list) list"

definition Values_Get :: "Values \<Rightarrow> string \<Rightarrow> string" where
  "Values_Get v key = (case map_of v key of None \<Rightarrow> [] | Some [] \<Rightarrow> [] | Some (x # _) \<Rightarrow> x)"

definition Values_Set :: "Values \<Rightarrow> string \<Rightarrow> string \<Rightarrow> Values" where
  "Values_Set v key val = AList.update key [val] v"

datatype http_method = GET | POST

text \<open>
  A request as \<^verbatim>\<open>docbCall\<close> issues it: POST with the encoded parameters as body, or GET
  with them as query string. The target is the package variable \<^verbatim>\<open>cbURL\<close> in both files
  and is left out.
\<close>

record request =
  verb :: http_method
  form :: Values

text \<open>
  What the server and the transport answer to one request: \<^verbatim>\<open>netClient.Get/Post\<close> fails,
  reading the body fails, the body is not JSON for a map, or the body decodes into \<open>dat\<close>.
\<close>

datatype reply =
    Failed string
  | Unreadable string
  | Undecodable string
  | Envelope jobj

text \<open>
  The network: the replies still to come, in order, and the requests sent so far. When no
  reply is left none arrives, and \<^verbatim>\<open>netClient\<close> (10 seconds timeout) gives up with an error.
\<close>

record net =
  pending :: "reply list"
  sent :: "request list"

text \<open>
  \<^verbatim>\<open>strings.ToUpper(typeofcall[0:]) == "POST"\<close>. Upper-casing is by rune; the runes whose
  upper case is one of P, O, S, T are those letters, their lower case and U+017F (long s,
  bytes C5 BF in UTF-8), whose upper case is S.
\<close>

definition ToUpper_is_POST :: "string \<Rightarrow> bool" where
  "ToUpper_is_POST typeofcall =
     (typeofcall \<in> set (concat (map (\<lambda>p. concat (map (\<lambda>ob. concat (map (\<lambda>s. map (\<lambda>t. p @ ob @ s @ t)
        [''t'', ''T'']) [''s'', ''S'', [CHR 0xC5, CHR 0xBF]])) [''o'', ''O''])) [''p'', ''P''])))"

definition docbCall :: "string \<Rightarrow> Values \<Rightarrow> net \<Rightarrow> (bool \<times> jobj \<times> error option) \<times> net" where
  "docbCall typeofcall params w =
     (let req = \<lparr>verb = (if ToUpper_is_POST typeofcall then POST else GET), form = params\<rparr>;
          w' = \<lparr>pending = tl (pending w), sent = sent w @ [req]\<rparr>
      in case pending w of
           [] \<Rightarrow> ((False, [], Some (TransportError ''Client.Timeout exceeded'')), w')
         | r # _ \<Rightarrow>
             (case r of
                Failed err \<Rightarrow> ((False, [], Some (TransportError err)), w')
              | Unreadable err \<Rightarrow> ((False, [], Some (TransportError err)), w')
              | Undecodable e \<Rightarrow> ((True, [], Some (DecodeError e)), w')
              | Envelope dat \<Rightarrow> ((True, dat, None), w')))"

text \<open>
  The tail shared by every operation once the success branch was not taken:
  \<^verbatim>\<open>if e == nil { wserr := dat["error"].(map[string]interface{});
       return empty, errors.New(wserr["code"].(string) + ": " + wserr["message"].(string)) }
     return empty, e\<close>
\<close>

definition wserr_New :: "jobj \<Rightarrow> error option" where
  "wserr_New dat =
     (case assertMap (map_of dat ''error'') of
        None \<Rightarrow> None
      | Some wserr \<Rightarrow>
          (case assertString (map_of wserr ''code'') of
             None \<Rightarrow> None
           | Some code \<Rightarrow>
               (case assertString (map_of wserr ''message'') of
                  None \<Rightarrow> None
                | Some message \<Rightarrow> Some (errors_New (code @ '': '' @ message)))))"

definition failed :: "'a \<Rightarrow> jobj \<Rightarrow> error option \<Rightarrow> ('a \<times> error option) outcome" where
  "failed empty' dat e =
     (if e = None then
        (case wserr_New dat of None \<Rightarrow> Panic | Some err \<Rightarrow> Return (empty', Some err))
      else Return (empty', e))"

text \<open>
  A map or slice that the caller passes in may be nil (\<open>None\<close>). A nil map has no keys and
  \<^verbatim>\<open>range\<close> visits nothing in it, \<^verbatim>\<open>json.Marshal\<close> writes \<^verbatim>\<open>null\<close> for a nil map or slice,
  and an assignment \<^verbatim>\<open>m[key] = val\<close> into a nil map panics.
\<close>

fun entries :: "jobj option \<Rightarrow> jobj" where
  "entries None = []"
| "entries (Some m) = m"

fun mapassign :: "jobj option \<Rightarrow> string \<Rightarrow> json \<Rightarrow> jobj option outcome" where
  "mapassign None key val = Panic"
| "mapassign (Some m) key val = Return (Some (AList.update key val m))"

fun map_interface :: "jobj option \<Rightarrow> json" where
  "map_interface None = JNull"
| "map_interface (Some m) = JObj m"

fun strings_interface :: "string list option \<Rightarrow> json" where
  "strings_interface None = JNull"
| "strings_interface (Some xs) = JArr (map JStr xs)"

section \<open>Package-level state (\<^verbatim>\<open>src/corebosgowslib.go\<close>)\<close>

record cbConnectionType =
  servertime :: float64
  expiretime :: string
  token :: string
  serviceuser :: string
  servicekey :: string
  sessionid :: string
  userid :: string

record globals =
  cbConnection :: cbConnectionType
  queryRestulColumns :: "nat \<rightharpoonup> string"

text \<open>
  The package variables when the program starts: \<^verbatim>\<open>var cbConnection cbConnectionType\<close> holds
  zero values and \<^verbatim>\<open>queryRestulColumns = make(map[int]string)\<close>.
\<close>

definition zero_cbConnection :: cbConnectionType where
  "zero_cbConnection =
     \<lparr>servertime = 0, expiretime = [], token = [], serviceuser = [], servicekey = [],
      sessionid = [], userid = []\<rparr>"

definition package_init :: globals where
  "package_init = \<lparr>cbConnection = zero_cbConnection, queryRestulColumns = Map.empty\<rparr>"

text \<open>
  \<^verbatim>\<open>crypto/md5\<close> is a collaborator: \<open>md5_Sum\<close> stands for the bytes that
  \<^verbatim>\<open>hasher.Write([]byte(text)); hasher.Sum(nil)\<close> yields and is a parameter of the login.
  \<^verbatim>\<open>hex.EncodeToString\<close> writes \<^verbatim>\<open>hextable[v>>4], hextable[v&0x0f]\<close> for every byte.
\<close>

definition hextable :: string where
  "hextable = ''0123456789abcdef''"

definition hex_EncodeToString :: "8 word list \<Rightarrow> string" where
  "hex_EncodeToString src =
     concat (map (\<lambda>v. [hextable ! unat (drop_bit 4 v), hextable ! unat (and v 0x0f)]) src)"

definition getMD5Hash :: "(string \<Rightarrow> 8 word list) \<Rightarrow> string \<Rightarrow> string" where
  "getMD5Hash md5_Sum text = hex_EncodeToString (md5_Sum text)"

text \<open>
  \<^verbatim>\<open>json.Marshal\<close> is a collaborator too and a parameter (\<open>Marshal\<close>) of the operations
  that serialise a slice or a map; its error is discarded by the code.
\<close>

definition doChallenge ::
  "string \<Rightarrow> globals \<Rightarrow> net \<Rightarrow> (bool \<times> error option) outcome \<times> globals \<times> net" where
  "doChallenge username g w =
     (let v = [(''operation'', [''getchallenge'']), (''username'', [username])];
          ((_, dat, e), w') = docbCall ''GET'' v w
      in if e = None \<and> map_of dat ''success'' = Some (JBool True) then
           (case assertMap (map_of dat ''result'') of
              None \<Rightarrow> (Panic, g, w')
            | Some rdo \<Rightarrow>
                (case assertFloat64 (map_of rdo ''serverTime'') of
                   None \<Rightarrow> (Panic, g, w')
                 | Some st \<Rightarrow>
                     (let g1 = g\<lparr>cbConnection := (cbConnection g)\<lparr>servertime := st\<rparr>\<rparr>
                      in case assertString (map_of rdo ''expireTime'') of
                           None \<Rightarrow> (Panic, g1, w')
                         | Some et \<Rightarrow>
                             (let g2 = g1\<lparr>cbConnection := (cbConnection g1)\<lparr>expiretime := et\<rparr>\<rparr>
                              in case assertString (map_of rdo ''token'') of
                                   None \<Rightarrow> (Panic, g2, w')
                                 | Some tk \<Rightarrow>
                                     (Return (True, None),
                                      g2\<lparr>cbConnection := (cbConnection g2)\<lparr>token := tk\<rparr>\<rparr>,
                                      w')))))
         else (Return (False, e), g, w'))"

definition DoLogin ::
  "(string \<Rightarrow> 8 word list) \<Rightarrow> string \<Rightarrow> string \<Rightarrow> bool \<Rightarrow> globals \<Rightarrow> net
     \<Rightarrow> (bool \<times> error option) outcome \<times> globals \<times> net" where
  "DoLogin md5_Sum username userAccesskey withpassword g w =
     (case doChallenge username g w of
        (Panic, g1, w1) \<Rightarrow> (Panic, g1, w1)
      | (Return (dc, err), g1, w1) \<Rightarrow>
          if dc = False then (Return (False, err), g1, w1)
          else
            (let v0 = [(''operation'', [''login'']), (''username'', [username])];
                 v = (if withpassword = True
                      then Values_Set v0 ''accessKey'' (token (cbConnection g1) @ userAccesskey)
                      else Values_Set v0 ''accessKey''
                             (getMD5Hash md5_Sum (token (cbConnection g1) @ userAccesskey)));
                 ((_, dat, e), w2) = docbCall ''POST'' v w1
             in if e = None \<and> map_of dat ''success'' = Some (JBool True) then
                  (case assertMap (map_of dat ''result'') of
                     None \<Rightarrow> (Panic, g1, w2)
                   | Some rdo \<Rightarrow>
                       (let g2 = g1\<lparr>cbConnection := (cbConnection g1)\<lparr>serviceuser := username\<rparr>\<rparr>;
                            g3 = g2\<lparr>cbConnection := (cbConnection g2)\<lparr>servicekey := userAccesskey\<rparr>\<rparr>
                        in case assertString (map_of rdo ''sessionName'') of
                             None \<Rightarrow> (Panic, g3, w2)
                           | Some sn \<Rightarrow>
                               (let g4 = g3\<lparr>cbConnection := (cbConnection g3)\<lparr>sessionid := sn\<rparr>\<rparr>
                                in case assertString (map_of rdo ''userId'') of
                                     None \<Rightarrow> (Panic, g4, w2)
                                   | Some uid \<Rightarrow>
                                       (Return (True, None),
                                        g4\<lparr>cbConnection := (cbConnection g4)\<lparr>userid := uid\<rparr>\<rparr>,
                                        w2))))
                else (failed False dat e, g1, w2)))"

definition DoLogout :: "globals \<Rightarrow> net \<Rightarrow> (bool \<times> error option) outcome \<times> net" where
  "DoLogout g w =
     (let v = [(''operation'', [''logout'']), (''sessionName'', [sessionid (cbConnection g)])];
          ((_, dat, e), w') = docbCall ''POST'' v w
      in if e = None \<and> map_of dat ''success'' = Some (JBool True) then (Return (True, None), w')
         else (failed False dat e, w'))"

text \<open>\<^verbatim>\<open>strings.Trim(s, cutset)\<close> for a cutset of ASCII bytes.\<close>

definition Trim :: "string \<Rightarrow> string \<Rightarrow> string" where
  "Trim s cutset =
     rev (dropWhile (\<lambda>c. c \<in> set cutset) (rev (dropWhile (\<lambda>c. c \<in> set cutset) s)))"

text \<open>
  \<^verbatim>\<open>idx := 0; for col := range row { queryRestulColumns[idx] = col; idx++ }\<close>
  over the keys of the row in the order \<^verbatim>\<open>range\<close> visits them.
\<close>

fun range_columns :: "string list \<Rightarrow> nat \<Rightarrow> (nat \<rightharpoonup> string) \<Rightarrow> (nat \<rightharpoonup> string)" where
  "range_columns [] idx cols = cols"
| "range_columns (col # rest) idx cols = range_columns rest (idx + 1) (cols(idx \<mapsto> col))"

definition DoQuery :: "string \<Rightarrow> globals \<Rightarrow> net \<Rightarrow> (json \<times> error option) outcome \<times> globals \<times> net" where
  "DoQuery query g w =
     (let q = Trim query '' ;'' @ '';'';
          v = [(''operation'', [''query'']),
               (''sessionName'', [sessionid (cbConnection g)]),
               (''query'', [q])];
          ((_, dat, e), w') = docbCall ''GET'' v w
      in if e = None \<and> map_of dat ''success'' = Some (JBool True) then
           (case assertSlice (map_of dat ''result'') of
              None \<Rightarrow> (Panic, g, w')
            | Some rdos \<Rightarrow>
                (if length rdos > 0 then
                   (case assertMap (Some (hd rdos)) of
                      None \<Rightarrow> (Panic, g, w')
                    | Some row \<Rightarrow>
                        (Return (JArr rdos, None),
                         g\<lparr>queryRestulColumns :=
                              range_columns (map fst row) 0 (queryRestulColumns g)\<rparr>, w'))
                 else (Return (JArr rdos, None), g\<lparr>queryRestulColumns := Map.empty\<rparr>, w')))
         else (failed (JObj []) dat e, g, w'))"

definition GetResultColumns :: "globals \<Rightarrow> (nat \<rightharpoonup> string)" where
  "GetResultColumns g = queryRestulColumns g"

text \<open>
  \<^verbatim>\<open>for _, mod := range rdos["types"].([]interface{}) { mname := mod.(string); types[mname] = mname }\<close>
\<close>

fun range_types :: "json list \<Rightarrow> (string \<rightharpoonup> string) \<Rightarrow> (string \<rightharpoonup> string) option" where
  "range_types [] types = Some types"
| "range_types (mod' # rest) types =
     (case assertString (Some mod') of
        None \<Rightarrow> None
      | Some mname \<Rightarrow> range_types rest (types(mname \<mapsto> mname)))"

definition DoListTypes ::
  "(json \<Rightarrow> string) \<Rightarrow> string list option \<Rightarrow> globals \<Rightarrow> net
     \<Rightarrow> ((string \<rightharpoonup> string) \<times> error option) outcome \<times> net" where
  "DoListTypes Marshal fieldTypeList g w =
     (let ftl = Marshal (strings_interface fieldTypeList);
          v = [(''operation'', [''listtypes'']),
               (''sessionName'', [sessionid (cbConnection g)]),
               (''fieldTypeList'', [ftl])];
          ((_, dat, e), w') = docbCall ''GET'' v w
      in if e = None \<and> map_of dat ''success'' = Some (JBool True) then
           (case assertMap (map_of dat ''result'') of
              None \<Rightarrow> (Panic, w')
            | Some rdos \<Rightarrow>
                (case assertSlice (map_of rdos ''types'') of
                   None \<Rightarrow> (Panic, w')
                 | Some mods \<Rightarrow>
                     (case range_types mods Map.empty of
                        None \<Rightarrow> (Panic, w')
                      | Some types \<Rightarrow> (Return (types, None), w'))))
         else (failed Map.empty dat e, w'))"

definition DoDescribe :: "string \<Rightarrow> globals \<Rightarrow> net \<Rightarrow> (jobj \<times> error option) outcome \<times> net" where
  "DoDescribe module' g w =
     (let v = [(''operation'', [''describe'']),
               (''sessionName'', [sessionid (cbConnection g)]),
               (''elementType'', [module'])];
          ((_, dat, e), w') = docbCall ''GET'' v w
      in if e = None \<and> map_of dat ''success'' = Some (JBool True) then
           (case assertMap (map_of dat ''result'') of
              None \<Rightarrow> (Panic, w')
            | Some rdo \<Rightarrow> (Return (rdo, None), w'))
         else (failed [] dat e, w'))"

definition DoRetrieve :: "string \<Rightarrow> globals \<Rightarrow> net \<Rightarrow> (jobj \<times> error option) outcome \<times> net" where
  "DoRetrieve record' g w =
     (let v = [(''operation'', [''retrieve'']),
               (''sessionName'', [sessionid (cbConnection g)]),
               (''id'', [record'])];
          ((_, dat, e), w') = docbCall ''GET'' v w
      in if e = None \<and> map_of dat ''success'' = Some (JBool True) then
           (case assertMap (map_of dat ''result'') of
              None \<Rightarrow> (Panic, w')
            | Some rdo \<Rightarrow> (Return (rdo, None), w'))
         else (failed [] dat e, w'))"

text \<open>
  DoCreate, DoUpdate and DoRevise write into the caller's map (a Go map is a reference), so
  the map as the caller sees it afterwards is part of the result.
\<close>

definition DoCreate ::
  "(json \<Rightarrow> string) \<Rightarrow> string \<Rightarrow> jobj option \<Rightarrow> globals \<Rightarrow> net
     \<Rightarrow> (jobj \<times> error option) outcome \<times> jobj option \<times> net" where
  "DoCreate Marshal module' valuemap g w =
     (let exists = (map_of (entries valuemap) ''assigned_user_id'' \<noteq> None)
      in case (if exists = False
               then mapassign valuemap ''assigned_user_id'' (JStr (userid (cbConnection g)))
               else Return valuemap) of
           Panic \<Rightarrow> (Panic, valuemap, w)
         | Return valuemap' \<Rightarrow>
             (let vals = Marshal (map_interface valuemap');
                  v = [(''operation'', [''create'']),
                       (''sessionName'', [sessionid (cbConnection g)]),
                       (''elementType'', [module']),
                       (''element'', [vals])];
                  ((_, dat, e), w') = docbCall ''POST'' v w
              in if e = None \<and> map_of dat ''success'' = Some (JBool True) then
                   (case assertMap (map_of dat ''result'') of
                      None \<Rightarrow> (Panic, valuemap', w')
                    | Some rdo \<Rightarrow> (Return (rdo, None), valuemap', w'))
                 else (failed [] dat e, valuemap', w')))"

definition DoUpdate ::
  "(json \<Rightarrow> string) \<Rightarrow> string \<Rightarrow> jobj option \<Rightarrow> globals \<Rightarrow> net
     \<Rightarrow> (jobj \<times> error option) outcome \<times> jobj option \<times> net" where
  "DoUpdate Marshal module' valuemap g w =
     (let exists = (map_of (entries valuemap) ''assigned_user_id'' \<noteq> None)
      in case (if exists = False
               then mapassign valuemap ''assigned_user_id'' (JStr (userid (cbConnection g)))
               else Return valuemap) of
           Panic \<Rightarrow> (Panic, valuemap, w)
         | Return valuemap' \<Rightarrow>
             (let vals = Marshal (map_interface valuemap');
                  v = [(''operation'', [''update'']),
                       (''sessionName'', [sessionid (cbConnection g)]),
                       (''elementType'', [module']),
                       (''element'', [vals])];
                  ((_, dat, e), w') = docbCall ''POST'' v w
              in if e = None \<and> map_of dat ''success'' = Some (JBool True) then
                   (case assertMap (map_of dat ''result'') of
                      None \<Rightarrow> (Panic, valuemap', w')
                    | Some rdo \<Rightarrow> (Return (rdo, None), valuemap', w'))
                 else (failed [] dat e, valuemap', w')))"

definition DoRevise ::
  "(json \<Rightarrow> string) \<Rightarrow> string \<Rightarrow> jobj option \<Rightarrow> globals \<Rightarrow> net
     \<Rightarrow> (jobj \<times> error option) outcome \<times> jobj option \<times> net" where
  "DoRevise Marshal module' valuemap g w =
     (let exists = (map_of (entries valuemap) ''assigned_user_id'' \<noteq> None)
      in case (if exists = False
               then mapassign valuemap ''assigned_user_id'' (JStr (userid (cbConnection g)))
               else Return valuemap) of
           Panic \<Rightarrow> (Panic, valuemap, w)
         | Return valuemap' \<Rightarrow>
             (let vals = Marshal (map_interface valuemap');
                  v = [(''operation'', [''revise'']),
                       (''sessionName'', [sessionid (cbConnection g)]),
                       (''elementType'', [module']),
                       (''element'', [vals])];
                  ((_, dat, e), w') = docbCall ''POST'' v w
              in if e = None \<and> map_of dat ''success'' = Some (JBool True) then
                   (case assertMap (map_of dat ''result'') of
                      None \<Rightarrow> (Panic, valuemap', w')
                    | Some rdo \<Rightarrow> (Return (rdo, None), valuemap', w'))
                 else (failed [] dat e, valuemap', w')))"

definition DoDelete :: "string \<Rightarrow> globals \<Rightarrow> net \<Rightarrow> (bool \<times> error option) outcome \<times> net" where
  "DoDelete record' g w =
     (let v = [(''operation'', [''delete'']),
               (''sessionName'', [sessionid (cbConnection g)]),
               (''id'', [record'])];
          ((_, dat, e), w') = docbCall ''POST'' v w
      in if e = None \<and> map_of dat ''success'' = Some (JBool True) then
           (case assertMap (map_of dat ''result'') of
              None \<Rightarrow> (Panic, w')
            | Some rdo \<Rightarrow>
                (case assertString (map_of rdo ''status'') of
                   None \<Rightarrow> (Panic, w')
                 | Some status \<Rightarrow>
                     if status = ''successful'' then (Return (True, None), w')
                     else (Return (False, Some (errors_New ''Unexpected DELETE error'')), w')))
         else (failed False dat e, w'))"

text \<open>
  \<^verbatim>\<open>for idx, val := range params { if v.Get(idx) == "" { v.Set(idx, val.(string)) } }\<close>
\<close>

fun range_params :: "jobj \<Rightarrow> Values \<Rightarrow> Values option" where
  "range_params [] v = Some v"
| "range_params ((idx, val) # rest) v =
     (if Values_Get v idx = [] then
        (case assertString (Some val) of
           None \<Rightarrow> None
         | Some s \<Rightarrow> range_params rest (Values_Set v idx s))
      else range_params rest v)"

definition DoInvoke ::
  "string \<Rightarrow> jobj option \<Rightarrow> string \<Rightarrow> globals \<Rightarrow> net
     \<Rightarrow> (jobj \<times> error option) outcome \<times> net" where
  "DoInvoke method' params typeofcall g w =
     (let v0 = [(''operation'', [method']), (''sessionName'', [sessionid (cbConnection g)])]
      in case range_params (entries params) v0 of
           None \<Rightarrow> (Panic, w)
         | Some v \<Rightarrow>
             (let ((_, dat, e), w') = docbCall typeofcall v w
              in if e = None \<and> map_of dat ''success'' = Some (JBool True) then
                   (case assertMap (map_of dat ''result'') of
                      None \<Rightarrow> (Panic, w')
                    | Some rdo \<Rightarrow> (Return (rdo, None), w'))
                 else (failed [] dat e, w')))"

definition DoGetRelatedRecords ::
  "(json \<Rightarrow> string) \<Rightarrow> string \<Rightarrow> string \<Rightarrow> string \<Rightarrow> jobj option \<Rightarrow> globals \<Rightarrow> net
     \<Rightarrow> (json list \<times> error option) outcome \<times> net" where
  "DoGetRelatedRecords Marshal record' module' relatedModule queryParameters g w =
     (let params = Marshal (map_interface queryParameters);
          v = [(''operation'', [''getRelatedRecords'']),
               (''sessionName'', [sessionid (cbConnection g)]),
               (''id'', [record']),
               (''module'', [module']),
               (''relatedModule'', [relatedModule]),
               (''queryParameters'', [params])];
          ((_, dat, e), w') = docbCall ''POST'' v w
      in if e = None \<and> map_of dat ''success'' = Some (JBool True) then
           (case assertMap (map_of dat ''result'') of
              None \<Rightarrow> (Panic, w')
            | Some rdo \<Rightarrow>
                (case assertSlice (map_of rdo ''records'') of
                   None \<Rightarrow> (Panic, w')
                 | Some records \<Rightarrow> (Return (records, None), w')))
         else (failed [] dat e, w'))"

definition DoSetRelated ::
  "(json \<Rightarrow> string) \<Rightarrow> string \<Rightarrow> string list option \<Rightarrow> globals \<Rightarrow> net
     \<Rightarrow> (bool \<times> error option) outcome \<times> net" where
  "DoSetRelated Marshal relateThisID withTheseIds g w =
     (let params = Marshal (strings_interface withTheseIds);
          v = [(''operation'', [''SetRelation'']),
               (''sessionName'', [sessionid (cbConnection g)]),
               (''relate_this_id'', [relateThisID]),
               (''with_these_ids'', [params])];
          ((_, dat, e), w') = docbCall ''POST'' v w
      in if e = None \<and> map_of dat ''success'' = Some (JBool True) then
           (case assertBool (map_of dat ''result'') of
              None \<Rightarrow> (Panic, w')
            | Some b \<Rightarrow> (Return (b, None), w'))
         else (failed False dat e, w'))"

definition DoLoginPage ::
  "string \<Rightarrow> string \<Rightarrow> string \<Rightarrow> globals \<Rightarrow> net \<Rightarrow> (string \<times> error option) outcome \<times> net" where
  "DoLoginPage template language csrf g w =
     (let v = [(''operation'', [''getLoginPage'']),
               (''sessionName'', [sessionid (cbConnection g)]),
               (''template'', [template]),
               (''language'', [language]),
               (''csrf'', [csrf])];
          ((_, dat, e), w') = docbCall ''GET'' v w
      in if e = None \<and> map_of dat ''success'' = Some (JBool True) then
           (case assertString (map_of dat ''result'') of
              None \<Rightarrow> (Panic, w')
            | Some page \<Rightarrow> (Return (page, None), w'))
         else (failed [] dat e, w'))"

section \<open>Per-session state (\<^verbatim>\<open>cbContext\<close>, the second source file)\<close>

text \<open>
  The second file keeps the connection and the column map in a \<^verbatim>\<open>cbContext\<close> struct (its
  field \<^verbatim>\<open>cbConnection\<close> is \<open>cbCtx_cbConnection\<close> here) and makes every operation a method
  on a pointer to it; \<^verbatim>\<open>docbCall\<close> is a method too and does not read its receiver.
  \<^verbatim>\<open>getMD5Hash\<close>, the HTTP client and the target URL stay package-level.
\<close>

record cbContext =
  cbCtx_cbConnection :: cbConnectionType
  queryResultColumns :: "nat \<rightharpoonup> string"

definition GetCbContext :: cbContext where
  "GetCbContext = \<lparr>cbCtx_cbConnection = zero_cbConnection, queryResultColumns = Map.empty\<rparr>"

definition cbCtx_docbCall ::
  "cbContext \<Rightarrow> string \<Rightarrow> Values \<Rightarrow> net \<Rightarrow> (bool \<times> jobj \<times> error option) \<times> net" where
  "cbCtx_docbCall cbCtx typeofcall params w =
     (let req = \<lparr>verb = (if ToUpper_is_POST typeofcall then POST else GET), form = params\<rparr>;
          w' = \<lparr>pending = tl (pending w), sent = sent w @ [req]\<rparr>
      in case pending w of
           [] \<Rightarrow> ((False, [], Some (TransportError ''Client.Timeout exceeded'')), w')
         | r # _ \<Rightarrow>
             (case r of
                Failed err \<Rightarrow> ((False, [], Some (TransportError err)), w')
              | Unreadable err \<Rightarrow> ((False, [], Some (TransportError err)), w')
              | Undecodable e \<Rightarrow> ((True, [], Some (DecodeError e)), w')
              | Envelope dat \<Rightarrow> ((True, dat, None), w')))"

definition cbCtx_doChallenge ::
  "string \<Rightarrow> cbContext \<Rightarrow> net \<Rightarrow> (bool \<times> error option) outcome \<times> cbContext \<times> net" where
  "cbCtx_doChallenge username cbCtx w =
     (let v = [(''operation'', [''getchallenge'']), (''username'', [username])];
          ((_, dat, e), w') = cbCtx_docbCall cbCtx ''GET'' v w
      in if e = None \<and> map_of dat ''success'' = Some (JBool True) then
           (case assertMap (map_of dat ''result'') of
              None \<Rightarrow> (Panic, cbCtx, w')
            | Some rdo \<Rightarrow>
                (case assertFloat64 (map_of rdo ''serverTime'') of
                   None \<Rightarrow> (Panic, cbCtx, w')
                 | Some st \<Rightarrow>
                     (let cbCtx1 = cbCtx\<lparr>cbCtx_cbConnection := (cbCtx_cbConnection cbCtx)\<lparr>servertime := st\<rparr>\<rparr>
                      in case assertString (map_of rdo ''expireTime'') of
                           None \<Rightarrow> (Panic, cbCtx1, w')
                         | Some et \<Rightarrow>
                             (let cbCtx2 = cbCtx1\<lparr>cbCtx_cbConnection := (cbCtx_cbConnection cbCtx1)\<lparr>expiretime := et\<rparr>\<rparr>
                              in case assertString (map_of rdo ''token'') of
                                   None \<Rightarrow> (Panic, cbCtx2, w')
                                 | Some tk \<Rightarrow>
                                     (Return (True, None),
                                      cbCtx2\<lparr>cbCtx_cbConnection := (cbCtx_cbConnection cbCtx2)\<lparr>token := tk\<rparr>\<rparr>,
                                      w')))))
         else (Return (False, e), cbCtx, w'))"

definition cbCtx_DoLogin ::
  "(string \<Rightarrow> 8 word list) \<Rightarrow> string \<Rightarrow> string \<Rightarrow> bool \<Rightarrow> cbContext \<Rightarrow> net
     \<Rightarrow> (bool \<times> error option) outcome \<times> cbContext \<times> net" where
  "cbCtx_DoLogin md5_Sum username userAccesskey withpassword cbCtx w =
     (case cbCtx_doChallenge username cbCtx w of
        (Panic, cbCtx1, w1) \<Rightarrow> (Panic, cbCtx1, w1)
      | (Return (dc, err), cbCtx1, w1) \<Rightarrow>
          if dc = False then (Return (False, err), cbCtx1, w1)
          else
            (let v0 = [(''operation'', [''login'']), (''username'', [username])];
                 v = (if withpassword = True
                      then Values_Set v0 ''accessKey'' (token (cbCtx_cbConnection cbCtx1) @ userAccesskey)
                      else Values_Set v0 ''accessKey''
                             (getMD5Hash md5_Sum (token (cbCtx_cbConnection cbCtx1) @ userAccesskey)));
                 ((_, dat, e), w2) = cbCtx_docbCall cbCtx1 ''POST'' v w1
             in if e = None \<and> map_of dat ''success'' = Some (JBool True) then
                  (case assertMap (map_of dat ''result'') of
                     None \<Rightarrow> (Panic, cbCtx1, w2)
                   | Some rdo \<Rightarrow>
                       (let cbCtx2 = cbCtx1\<lparr>cbCtx_cbConnection := (cbCtx_cbConnection cbCtx1)\<lparr>serviceuser := username\<rparr>\<rparr>;
                            cbCtx3 = cbCtx2\<lparr>cbCtx_cbConnection := (cbCtx_cbConnection cbCtx2)\<lparr>servicekey := userAccesskey\<rparr>\<rparr>
                        in case assertString (map_of rdo ''sessionName'') of
                             None \<Rightarrow> (Panic, cbCtx3, w2)
                           | Some sn \<Rightarrow>
                               (let cbCtx4 = cbCtx3\<lparr>cbCtx_cbConnection := (cbCtx_cbConnection cbCtx3)\<lparr>sessionid := sn\<rparr>\<rparr>
                                in case assertString (map_of rdo ''userId'') of
                                     None \<Rightarrow> (Panic, cbCtx4, w2)
                                   | Some uid \<Rightarrow>
                                       (Return (True, None),
                                        cbCtx4\<lparr>cbCtx_cbConnection := (cbCtx_cbConnection cbCtx4)\<lparr>userid := uid\<rparr>\<rparr>,
                                        w2))))
                else (failed False dat e, cbCtx1, w2)))"

definition cbCtx_DoLogout :: "cbContext \<Rightarrow> net \<Rightarrow> (bool \<times> error option) outcome \<times> net" where
  "cbCtx_DoLogout cbCtx w =
     (let v = [(''operation'', [''logout'']), (''sessionName'', [sessionid (cbCtx_cbConnection cbCtx)])];
          ((_, dat, e), w') = cbCtx_docbCall cbCtx ''POST'' v w
      in if e = None \<and> map_of dat ''success'' = Some (JBool True) then (Return (True, None), w')
         else (failed False dat e, w'))"

definition cbCtx_DoQuery :: "string \<Rightarrow> cbContext \<Rightarrow> net \<Rightarrow> (json \<times> error option) outcome \<times> cbContext \<times> net" where
  "cbCtx_DoQuery query cbCtx w =
     (let q = Trim query '' ;'' @ '';'';
          v = [(''operation'', [''query'']),
               (''sessionName'', [sessionid (cbCtx_cbConnection cbCtx)]),
               (''query'', [q])];
          ((_, dat, e), w') = cbCtx_docbCall cbCtx ''GET'' v w
      in if e = None \<and> map_of dat ''success'' = Some (JBool True) then
           (case assertSlice (map_of dat ''result'') of
              None \<Rightarrow> (Panic, cbCtx, w')
            | Some rdos \<Rightarrow>
                (if length rdos > 0 then
                   (case assertMap (Some (hd rdos)) of
                      None \<Rightarrow> (Panic, cbCtx, w')
                    | Some row \<Rightarrow>
                        (Return (JArr rdos, None),
                         cbCtx\<lparr>queryResultColumns :=
                              range_columns (map fst row) 0 (queryResultColumns cbCtx)\<rparr>, w'))
                 else (Return (JArr rdos, None), cbCtx\<lparr>queryResultColumns := Map.empty\<rparr>, w')))
         else (failed (JObj []) dat e, cbCtx, w'))"

definition cbCtx_GetResultColumns :: "cbContext \<Rightarrow> (nat \<rightharpoonup> string)" where
  "cbCtx_GetResultColumns cbCtx = queryResultColumns cbCtx"

definition cbCtx_DoListTypes ::
  "(json \<Rightarrow> string) \<Rightarrow> string list option \<Rightarrow> cbContext \<Rightarrow> net
     \<Rightarrow> ((string \<rightharpoonup> string) \<times> error option) outcome \<times> net" where
  "cbCtx_DoListTypes Marshal fieldTypeList cbCtx w =
     (let ftl = Marshal (strings_interface fieldTypeList);
          v = [(''operation'', [''listtypes'']),
               (''sessionName'', [sessionid (cbCtx_cbConnection cbCtx)]),
               (''fieldTypeList'', [ftl])];
          ((_, dat, e), w') = cbCtx_docbCall cbCtx ''GET'' v w
      in if e = None \<and> map_of dat ''success'' = Some (JBool True) then
           (case assertMap (map_of dat ''result'') of
              None \<Rightarrow> (Panic, w')
            | Some rdos \<Rightarrow>
                (case assertSlice (map_of rdos ''types'') of
                   None \<Rightarrow> (Panic, w')
                 | Some mods \<Rightarrow>
                     (case range_types mods Map.empty of
                        None \<Rightarrow> (Panic, w')
                      | Some types \<Rightarrow> (Return (types, None), w'))))
         else (failed Map.empty dat e, w'))"

definition cbCtx_DoDescribe :: "string \<Rightarrow> cbContext \<Rightarrow> net \<Rightarrow> (jobj \<times> error option) outcome \<times> net" where
  "cbCtx_DoDescribe module' cbCtx w =
     (let v = [(''operation'', [''describe'']),
               (''sessionName'', [sessionid (cbCtx_cbConnection cbCtx)]),
               (''elementType'', [module'])];
          ((_, dat, e), w') = cbCtx_docbCall cbCtx ''GET'' v w
      in if e = None \<and> map_of dat ''success'' = Some (JBool True) then
           (case assertMap (map_of dat ''result'') of
              None \<Rightarrow> (Panic, w')
            | Some rdo \<Rightarrow> (Return (rdo, None), w'))
         else (failed [] dat e, w'))"

definition cbCtx_DoRetrieve :: "string \<Rightarrow> cbContext \<Rightarrow> net \<Rightarrow> (jobj \<times> error option) outcome \<times> net" where
  "cbCtx_DoRetrieve record' cbCtx w =
     (let v = [(''operation'', [''retrieve'']),
               (''sessionName'', [sessionid (cbCtx_cbConnection cbCtx)]),
               (''id'', [record'])];
          ((_, dat, e), w') = cbCtx_docbCall cbCtx ''GET'' v w
      in if e = None \<and> map_of dat ''success'' = Some (JBool True) then
           (case assertMap (map_of dat ''result'') of
              None \<Rightarrow> (Panic, w')
            | Some rdo \<Rightarrow> (Return (rdo, None), w'))
         else (failed [] dat e, w'))"

definition cbCtx_DoCreate ::
  "(json \<Rightarrow> string) \<Rightarrow> string \<Rightarrow> jobj option \<Rightarrow> cbContext \<Rightarrow> net
     \<Rightarrow> (jobj \<times> error option) outcome \<times> jobj option \<times> net" where
  "cbCtx_DoCreate Marshal module' valuemap cbCtx w =
     (let exists = (map_of (entries valuemap) ''assigned_user_id'' \<noteq> None)
      in case (if exists = False
               then mapassign valuemap ''assigned_user_id'' (JStr (userid (cbCtx_cbConnection cbCtx)))
               else Return valuemap) of
           Panic \<Rightarrow> (Panic, valuemap, w)
         | Return valuemap' \<Rightarrow>
             (let vals = Marshal (map_interface valuemap');
                  v = [(''operation'', [''create'']),
                       (''sessionName'', [sessionid (cbCtx_cbConnection cbCtx)]),
                       (''elementType'', [module']),
                       (''element'', [vals])];
                  ((_, dat, e), w') = cbCtx_docbCall cbCtx ''POST'' v w
              in if e = None \<and> map_of dat ''success'' = Some (JBool True) then
                   (case assertMap (map_of dat ''result'') of
                      None \<Rightarrow> (Panic, valuemap', w')
                    | Some rdo \<Rightarrow> (Return (rdo, None), valuemap', w'))
                 else (failed [] dat e, valuemap', w')))"

definition cbCtx_DoUpdate ::
  "(json \<Rightarrow> string) \<Rightarrow> string \<Rightarrow> jobj option \<Rightarrow> cbContext \<Rightarrow> net
     \<Rightarrow> (jobj \<times> error option) outcome \<times> jobj option \<times> net" where
  "cbCtx_DoUpdate Marshal module' valuemap cbCtx w =
     (let exists = (map_of (entries valuemap) ''assigned_user_id'' \<noteq> None)
      in case (if exists = False
               then mapassign valuemap ''assigned_user_id'' (JStr (userid (cbCtx_cbConnection cbCtx)))
               else Return valuemap) of
           Panic \<Rightarrow> (Panic, valuemap, w)
         | Return valuemap' \<Rightarrow>
             (let vals = Marshal (map_interface valuemap');
                  v = [(''operation'', [''update'']),
                       (''sessionName'', [sessionid (cbCtx_cbConnection cbCtx)]),
                       (''elementType'', [module']),
                       (''element'', [vals])];
                  ((_, dat, e), w') = cbCtx_docbCall cbCtx ''POST'' v w
              in if e = None \<and> map_of dat ''success'' = Some (JBool True) then
                   (case assertMap (map_of dat ''result'') of
                      None \<Rightarrow> (Panic, valuemap', w')
                    | Some rdo \<Rightarrow> (Return (rdo, None), valuemap', w'))
                 else (failed [] dat e, valuemap', w')))"

definition cbCtx_DoRevise ::
  "(json \<Rightarrow> string) \<Rightarrow> string \<Rightarrow> jobj option \<Rightarrow> cbContext \<Rightarrow> net
     \<Rightarrow> (jobj \<times> error option) outcome \<times> jobj option \<times> net" where
  "cbCtx_DoRevise Marshal module' valuemap cbCtx w =
     (let exists = (map_of (entries valuemap) ''assigned_user_id'' \<noteq> None)
      in case (if exists = False
               then mapassign valuemap ''assigned_user_id'' (JStr (userid (cbCtx_cbConnection cbCtx)))
               else Return valuemap) of
           Panic \<Rightarrow> (Panic, valuemap, w)
         | Return valuemap' \<Rightarrow>
             (let vals = Marshal (map_interface valuemap');
                  v = [(''operation'', [''revise'']),
                       (''sessionName'', [sessionid (cbCtx_cbConnection cbCtx)]),
                       (''elementType'', [module']),
                       (''element'', [vals])];
                  ((_, dat, e), w') = cbCtx_docbCall cbCtx ''POST'' v w
              in if e = None \<and> map_of dat ''success'' = Some (JBool True) then
                   (case assertMap (map_of dat ''result'') of
                      None \<Rightarrow> (Panic, valuemap', w')
                    | Some rdo \<Rightarrow> (Return (rdo, None), valuemap', w'))
                 else (failed [] dat e, valuemap', w')))"

definition cbCtx_DoDelete :: "string \<Rightarrow> cbContext \<Rightarrow> net \<Rightarrow> (bool \<times> error option) outcome \<times> net" where
  "cbCtx_DoDelete record' cbCtx w =
     (let v = [(''operation'', [''delete'']),
               (''sessionName'', [sessionid (cbCtx_cbConnection cbCtx)]),
               (''id'', [record'])];
          ((_, dat, e), w') = cbCtx_docbCall cbCtx ''POST'' v w
      in if e = None \<and> map_of dat ''success'' = Some (JBool True) then
           (case assertMap (map_of dat ''result'') of
              None \<Rightarrow> (Panic, w')
            | Some rdo \<Rightarrow>
                (case assertString (map_of rdo ''status'') of
                   None \<Rightarrow> (Panic, w')
                 | Some status \<Rightarrow>
                     if status = ''successful'' then (Return (True, None), w')
                     else (Return (False, Some (errors_New ''Unexpected DELETE error'')), w')))
         else (failed False dat e, w'))"

definition cbCtx_DoInvoke ::
  "string \<Rightarrow> jobj option \<Rightarrow> string \<Rightarrow> cbContext \<Rightarrow> net
     \<Rightarrow> (jobj \<times> error option) outcome \<times> net" where
  "cbCtx_DoInvoke method' params typeofcall cbCtx w =
     (let v0 = [(''operation'', [method']), (''sessionName'', [sessionid (cbCtx_cbConnection cbCtx)])]
      in case range_params (entries params) v0 of
           None \<Rightarrow> (Panic, w)
         | Some v \<Rightarrow>
             (let ((_, dat, e), w') = cbCtx_docbCall cbCtx typeofcall v w
              in if e = None \<and> map_of dat ''success'' = Some (JBool True) then
                   (case assertMap (map_of dat ''result'') of
                      None \<Rightarrow> (Panic, w')
                    | Some rdo \<Rightarrow> (Return (rdo, None), w'))
                 else (failed [] dat e, w')))"

definition cbCtx_DoGetRelatedRecords ::
  "(json \<Rightarrow> string) \<Rightarrow> string \<Rightarrow> string \<Rightarrow> string \<Rightarrow> jobj option \<Rightarrow> cbContext \<Rightarrow> net
     \<Rightarrow> (json list \<times> error option) outcome \<times> net" where
  "cbCtx_DoGetRelatedRecords Marshal record' module' relatedModule queryParameters cbCtx w =
     (let params = Marshal (map_interface queryParameters);
          v = [(''operation'', [''getRelatedRecords'']),
               (''sessionName'', [sessionid (cbCtx_cbConnection cbCtx)]),
               (''id'', [record']),
               (''module'', [module']),
               (''relatedModule'', [relatedModule]),
               (''queryParameters'', [params])];
          ((_, dat, e), w') = cbCtx_docbCall cbCtx ''POST'' v w
      in if e = None \<and> map_of dat ''success'' = Some (JBool True) then
           (case assertMap (map_of dat ''result'') of
              None \<Rightarrow> (Panic, w')
            | Some rdo \<Rightarrow>
                (case assertSlice (map_of rdo ''records'') of
                   None \<Rightarrow> (Panic, w')
                 | Some records \<Rightarrow> (Return (records, None), w')))
         else (failed [] dat e, w'))"

definition cbCtx_DoSetRelated ::
  "(json \<Rightarrow> string) \<Rightarrow> string \<Rightarrow> string list option \<Rightarrow> cbContext \<Rightarrow> net
     \<Rightarrow> (bool \<times> error option) outcome \<times> net" where
  "cbCtx_DoSetRelated Marshal relateThisID withTheseIds cbCtx w =
     (let params = Marshal (strings_interface withTheseIds);
          v = [(''operation'', [''SetRelation'']),
               (''sessionName'', [sessionid (cbCtx_cbConnection cbCtx)]),
               (''relate_this_id'', [relateThisID]),
               (''with_these_ids'', [params])];
          ((_, dat, e), w') = cbCtx_docbCall cbCtx ''POST'' v w
      in if e = None \<and> map_of dat ''success'' = Some (JBool True) then
           (case assertBool (map_of dat ''result'') of
              None \<Rightarrow> (Panic, w')
            | Some b \<Rightarrow> (Return (b, None), w'))
         else (failed False dat e, w'))"

definition cbCtx_DoLoginPage ::
  "string \<Rightarrow> string \<Rightarrow> string \<Rightarrow> cbContext \<Rightarrow> net \<Rightarrow> (string \<times> error option) outcome \<times> net" where
  "cbCtx_DoLoginPage template language csrf cbCtx w =
     (let v = [(''operation'', [''getLoginPage'']),
               (''sessionName'', [sessionid (cbCtx_cbConnection cbCtx)]),
               (''template'', [template]),
               (''language'', [language]),
               (''csrf'', [csrf])];
          ((_, dat, e), w') = cbCtx_docbCall cbCtx ''GET'' v w
      in if e = None \<and> map_of dat ''success'' = Some (JBool True) then
           (case assertString (map_of dat ''result'') of
              None \<Rightarrow> (Panic, w')
            | Some page \<Rightarrow> (Return (page, None), w'))
         else (failed [] dat e, w'))"

text \<open>
  The correspondence between the two layouts of the state: the fields of a \<^verbatim>\<open>cbContext\<close>
  read as the package variables of the first file, and back.
\<close>

definition as_globals :: "cbContext \<Rightarrow> globals" where
  "as_globals cbCtx =
     \<lparr>cbConnection = cbCtx_cbConnection cbCtx, queryRestulColumns = queryResultColumns cbCtx\<rparr>"

definition as_cbContext :: "globals \<Rightarrow> cbContext" where
  "as_cbContext g =
     \<lparr>cbCtx_cbConnection = cbConnection g, queryResultColumns = queryRestulColumns g\<rparr>"

section \<open>Facts about the collaborators\<close>

lemma ToUpper_GET [simp]: "\<not> ToUpper_is_POST ''GET''"
  by (simp add: ToUpper_is_POST_def)

lemma ToUpper_POST [simp]: "ToUpper_is_POST ''POST''"
  by (simp add: ToUpper_is_POST_def)

lemma snd_docbCall:
  "snd (docbCall typeofcall params w) =
     \<lparr>pending = tl (pending w),
      sent = sent w @ [\<lparr>verb = (if ToUpper_is_POST typeofcall then POST else GET), form = params\<rparr>]\<rparr>"
  by (simp add: docbCall_def Let_def split: list.split reply.split)

lemma fst_docbCall_Envelope:
  "pending w = Envelope dat # rs \<Longrightarrow>
   fst (docbCall typeofcall params w) = (True, dat, None)"
  by (simp add: docbCall_def Let_def)

lemma docbCall_error_cases:
  "fst (docbCall typeofcall params w) = (ok, dat, Some e) \<Longrightarrow>
     (pending w = [] \<and> e = TransportError ''Client.Timeout exceeded'')
     \<or> (\<exists>err rs. pending w = Failed err # rs \<and> e = TransportError err)
     \<or> (\<exists>err rs. pending w = Unreadable err # rs \<and> e = TransportError err)
     \<or> (\<exists>err rs. pending w = Undecodable err # rs \<and> e = DecodeError err)"
  by (auto simp add: docbCall_def Let_def split: list.splits reply.splits)

lemma failed_wserr:
  "map_of dat ''error'' = Some (JObj wserr) \<Longrightarrow>
   map_of wserr ''code'' = Some (JStr code) \<Longrightarrow>
   map_of wserr ''message'' = Some (JStr message) \<Longrightarrow>
   failed z dat None = Return (z, Some (errors_New (code @ '': '' @ message)))"
  by (simp add: failed_def wserr_New_def)

lemma doChallenge_net:
  "snd (snd (doChallenge username g w)) =
     \<lparr>pending = tl (pending w),
      sent = sent w @ [\<lparr>verb = GET,
                         form = [(''operation'', [''getchallenge'']), (''username'', [username])]\<rparr>]\<rparr>"
  by (simp add: doChallenge_def Let_def case_prod_beta snd_docbCall split: option.split)

lemma doChallenge_False:
  "fst (doChallenge username g w) = Return (False, e) \<Longrightarrow> fst (snd (doChallenge username g w)) = g"
  by (auto simp add: doChallenge_def Let_def case_prod_beta split: option.splits if_splits)

lemma doChallenge_frame:
  "serviceuser (cbConnection (fst (snd (doChallenge username g w)))) = serviceuser (cbConnection g)
   \<and> servicekey (cbConnection (fst (snd (doChallenge username g w)))) = servicekey (cbConnection g)
   \<and> sessionid (cbConnection (fst (snd (doChallenge username g w)))) = sessionid (cbConnection g)
   \<and> userid (cbConnection (fst (snd (doChallenge username g w)))) = userid (cbConnection g)
   \<and> queryRestulColumns (fst (snd (doChallenge username g w))) = queryRestulColumns g"
  by (simp add: doChallenge_def Let_def case_prod_beta split: option.split)

lemma doChallenge_True:
  "pending w = Envelope dat # rs \<Longrightarrow> map_of dat ''success'' = Some (JBool True) \<Longrightarrow>
   map_of dat ''result'' = Some (JObj rdo) \<Longrightarrow> map_of rdo ''serverTime'' = Some (JNum st) \<Longrightarrow>
   map_of rdo ''expireTime'' = Some (JStr et) \<Longrightarrow> map_of rdo ''token'' = Some (JStr tk) \<Longrightarrow>
   doChallenge username g w =
     (Return (True, None),
      g\<lparr>cbConnection := (cbConnection g)\<lparr>servertime := st, expiretime := et, token := tk\<rparr>\<rparr>,
      \<lparr>pending = rs,
       sent = sent w @ [\<lparr>verb = GET,
                         form = [(''operation'', [''getchallenge'']), (''username'', [username])]\<rparr>]\<rparr>)"
  by (simp add: doChallenge_def Let_def docbCall_def)





lemma range_columns_apply:
  "range_columns cols idx m =
     (\<lambda>i. if idx \<le> i \<and> i < idx + length cols then Some (cols ! (i - idx)) else m i)"
proof (induction cols arbitrary: idx m)
  case Nil
  show ?case by (rule ext) auto
next
  case (Cons col rest)
  show ?case
    by (rule ext) (auto simp add: Cons.IH nth_Cons' Suc_diff_le)
qed

lemma DoQuery_columns:
  assumes "pending w = Envelope dat # rs"
    and "map_of dat ''success'' = Some (JBool True)"
  shows "map_of dat ''result'' = Some (JArr (JObj row # rows)) \<Longrightarrow>
           GetResultColumns (fst (snd (DoQuery query g w))) =
             (\<lambda>i. if i < length row then Some (fst (row ! i)) else queryRestulColumns g i)"
    and "map_of dat ''result'' = Some (JArr []) \<Longrightarrow>
           GetResultColumns (fst (snd (DoQuery query g w))) = Map.empty"
  using assms
  by (auto simp add: DoQuery_def GetResultColumns_def Let_def case_prod_beta
        fst_docbCall_Envelope [of w dat rs] range_columns_apply)

lemma update_absent:
  "map_of al k = None \<Longrightarrow> AList.update k v al = al @ [(k, v)]"
  by (induction al) (auto split: if_splits)

lemma not_remote_formatted:
  "''Unexpected DELETE error'' \<noteq> code @ '': '' @ message"
proof
  assume "''Unexpected DELETE error'' = code @ '': '' @ message"
  then have "set ''Unexpected DELETE error'' = set (code @ '': '' @ message)"
    by (rule arg_cong)
  then have "CHR '':'' \<in> set ''Unexpected DELETE error''"
    by simp
  then show False by simp
qed

lemma cbCtx_docbCall_eq: "cbCtx_docbCall cbCtx typeofcall params w = docbCall typeofcall params w"
  by (simp add: cbCtx_docbCall_def docbCall_def)

lemma as_globals_simps:
  "cbConnection (as_globals cbCtx) = cbCtx_cbConnection cbCtx"
  "queryRestulColumns (as_globals cbCtx) = queryResultColumns cbCtx"
  "as_globals (cbCtx\<lparr>cbCtx_cbConnection := c\<rparr>) = (as_globals cbCtx)\<lparr>cbConnection := c\<rparr>"
  "as_globals (cbCtx\<lparr>queryResultColumns := q\<rparr>) = (as_globals cbCtx)\<lparr>queryRestulColumns := q\<rparr>"
  by (simp_all add: as_globals_def)

lemma cbCtx_doChallenge_eq:
  "map_prod id (map_prod as_globals id) (cbCtx_doChallenge username cbCtx w)
     = doChallenge username (as_globals cbCtx) w"
  by (simp add: cbCtx_doChallenge_def doChallenge_def cbCtx_docbCall_eq as_globals_simps
        Let_def case_prod_beta split: option.split)

lemma cbCtx_DoLogin_eq:
  "map_prod id (map_prod as_globals id)
       (cbCtx_DoLogin md5_Sum username userAccesskey withpassword cbCtx w)
     = DoLogin md5_Sum username userAccesskey withpassword (as_globals cbCtx) w"
proof -
  obtain r c1 w1 where c: "cbCtx_doChallenge username cbCtx w = (r, c1, w1)"
    by (cases "cbCtx_doChallenge username cbCtx w") auto
  then have g: "doChallenge username (as_globals cbCtx) w = (r, as_globals c1, w1)"
    using cbCtx_doChallenge_eq [of username cbCtx w] by simp
  show ?thesis
  proof (cases r)
    case Panic
    then show ?thesis
      by (simp add: cbCtx_DoLogin_def DoLogin_def c g)
  next
    case (Return p)
    then show ?thesis
      by (cases p)
         (simp add: cbCtx_DoLogin_def DoLogin_def c g cbCtx_docbCall_eq as_globals_simps
            Let_def case_prod_beta
            option.case_distrib [of "map_prod id (map_prod as_globals id)"]
            if_distrib [of "map_prod id (map_prod as_globals id)"]
            cong: option.case_cong if_cong)
  qed
qed

lemma cbCtx_DoQuery_eq:
  "map_prod id (map_prod as_globals id) (cbCtx_DoQuery query cbCtx w)
     = DoQuery query (as_globals cbCtx) w"
  by (simp add: cbCtx_DoQuery_def DoQuery_def cbCtx_docbCall_eq as_globals_simps
        Let_def case_prod_beta split: option.split)

lemma low_nibble: "unat (and (v::8 word) 0x0f) < 16"
proof -
  have "and v 0x0f = take_bit 4 v"
    by (simp add: take_bit_eq_mask mask_eq_exp_minus_1)
  then have "unat (and v 0x0f) = take_bit 4 (unat v)"
    by (simp add: unsigned_take_bit_eq)
  also have "\<dots> < 2 ^ 4"
    by (rule take_bit_nat_less_exp)
  finally show ?thesis by simp
qed

lemma high_nibble: "unat (drop_bit 4 (v::8 word)) < 16"
proof -
  have "unat v < 256"
    using unsigned_less [of v, where ?'a = nat] by simp
  then have "drop_bit 4 (unat v) < 16"
    by (simp add: drop_bit_eq_div)
  then show ?thesis
    by (simp only: unat_drop_bit_eq)
qed

lemma hextable_nth: "n < 16 \<Longrightarrow> hextable ! n \<in> set hextable"
  by (rule nth_mem) (simp add: hextable_def)

lemma hex_EncodeToString_length: "length (hex_EncodeToString src) = 2 * length src"
  by (induction src) (simp_all add: hex_EncodeToString_def)

lemma hex_EncodeToString_digits: "set (hex_EncodeToString src) \<subseteq> set hextable"
  using low_nibble high_nibble
  by (auto simp add: hex_EncodeToString_def intro: hextable_nth)

section \<open>Query normalisation\<close>


section \<open>The challenge step\<close>

text \<open>
  Claim C4. When the getchallenge call is answered by a decoded envelope whose \<open>success\<close>
  is not \<open>true\<close>, doChallenge returns \<open>(false, nil)\<close> and leaves the package state as
  it was: whatever \<open>error\<close> object the envelope carries is not looked at. A non-nil error
  comes out of doChallenge only when the transport failed (no answer, request failed, body
  unreadable) or the body did not decode, and it is that failure's error.
\<close>

theorem doChallenge_swallows_remote_error:
  "(\<forall>dat rs. pending w = Envelope dat # rs \<and> map_of dat ''success'' \<noteq> Some (JBool True) \<longrightarrow>
      doChallenge username g w =
        (Return (False, None), g,
         \<lparr>pending = rs,
          sent = sent w @ [\<lparr>verb = GET,
                form = [(''operation'', [''getchallenge'']), (''username'', [username])]\<rparr>]\<rparr>))
   \<and> (\<forall>ok e. fst (doChallenge username g w) = Return (ok, Some e) \<longrightarrow>
        ok = False
        \<and> ((pending w = [] \<and> e = TransportError ''Client.Timeout exceeded'')
           \<or> (\<exists>err rs. pending w = Failed err # rs \<and> e = TransportError err)
           \<or> (\<exists>err rs. pending w = Unreadable err # rs \<and> e = TransportError err)
           \<or> (\<exists>err rs. pending w = Undecodable err # rs \<and> e = DecodeError err)))"
proof (intro conjI allI impI)
  fix dat rs
  assume "pending w = Envelope dat # rs \<and> map_of dat ''success'' \<noteq> Some (JBool True)"
  then show "doChallenge username g w =
        (Return (False, None), g,
         \<lparr>pending = rs,
          sent = sent w @ [\<lparr>verb = GET,
                form = [(''operation'', [''getchallenge'']), (''username'', [username])]\<rparr>]\<rparr>)"
    by (simp add: doChallenge_def Let_def docbCall_def)
next
  fix ok e
  assume r: "fst (doChallenge username g w) = Return (ok, Some e)"
  let ?c = "docbCall ''GET'' [(''operation'', [''getchallenge'']), (''username'', [username])] w"
  from r have "ok = False \<and> snd (snd (fst ?c)) = Some e"
    by (auto simp add: doChallenge_def Let_def case_prod_beta split: option.splits if_splits)
  then have ok: "ok = False" and "fst ?c = (fst (fst ?c), fst (snd (fst ?c)), Some e)"
    by (simp_all add: prod_eq_iff)
  from this(2) have "(pending w = [] \<and> e = TransportError ''Client.Timeout exceeded'')
           \<or> (\<exists>err rs. pending w = Failed err # rs \<and> e = TransportError err)
           \<or> (\<exists>err rs. pending w = Unreadable err # rs \<and> e = TransportError err)
           \<or> (\<exists>err rs. pending w = Undecodable err # rs \<and> e = DecodeError err)"
    by (rule docbCall_error_cases)
  then show "(pending w = [] \<and> e = TransportError ''Client.Timeout exceeded'')
           \<or> (\<exists>err rs. pending w = Failed err # rs \<and> e = TransportError err)
           \<or> (\<exists>err rs. pending w = Unreadable err # rs \<and> e = TransportError err)
           \<or> (\<exists>err rs. pending w = Undecodable err # rs \<and> e = DecodeError err)" .
  from ok show "ok = False" .
qed


theorem doChallenge_swallows_remote_error_witness:
  "doChallenge ''admin'' package_init
     \<lparr>pending = [Envelope [(''success'', JBool False),
                            (''error'', JObj [(''code'', JStr ''INVALID_USER''),
                                              (''message'', JStr ''no such user'')])]],
      sent = []\<rparr> =
     (Return (False, None), package_init,
      \<lparr>pending = [],
       sent = [\<lparr>verb = GET,
                 form = [(''operation'', [''getchallenge'']), (''username'', [''admin''])]\<rparr>]\<rparr>)
   \<and> fst (doChallenge ''admin'' package_init \<lparr>pending = [Undecodable ''unexpected end of JSON input''], sent = []\<rparr>)
       = Return (False, Some (DecodeError ''unexpected end of JSON input''))"
  using doChallenge_swallows_remote_error
          [of "\<lparr>pending = [Envelope [(''success'', JBool False),
                            (''error'', JObj [(''code'', JStr ''INVALID_USER''),
                                              (''message'', JStr ''no such user'')])]],
                sent = []\<rparr>" "''admin''" package_init]
        doChallenge_swallows_remote_error
          [of "\<lparr>pending = [Undecodable ''unexpected end of JSON input''], sent = []\<rparr>" "''admin''" package_init]
  by (simp add: doChallenge_def docbCall_def)

section \<open>Login\<close>

text \<open>
  Claim C1. Whatever the username, access key and password mode, the first request DoLogin
  sends is the getchallenge GET for that username. When the challenge step fails (no answer
  or a failed request or an unreadable body, an undecodable body, or an envelope whose
  \<open>success\<close> is not \<open>true\<close>) DoLogin returns \<open>false\<close> with the challenge's error at once:
  the getchallenge request is the only request sent, no login request follows, and the package
  state is as before.
\<close>

theorem DoLogin_challenge_first:
  "(\<exists>rest. sent (snd (snd (DoLogin md5_Sum username userAccesskey withpassword g w))) =
       sent w @ \<lparr>verb = GET,
                  form = [(''operation'', [''getchallenge'']), (''username'', [username])]\<rparr> # rest)
   \<and> (pending w = [] \<longrightarrow>
      DoLogin md5_Sum username userAccesskey withpassword g w =
        (Return (False, Some (TransportError ''Client.Timeout exceeded'')), g,
         \<lparr>pending = [],
          sent = sent w @ [\<lparr>verb = GET,
                form = [(''operation'', [''getchallenge'']), (''username'', [username])]\<rparr>]\<rparr>))
   \<and> (\<forall>err rs. pending w = Failed err # rs \<or> pending w = Unreadable err # rs \<longrightarrow>
      DoLogin md5_Sum username userAccesskey withpassword g w =
        (Return (False, Some (TransportError err)), g,
         \<lparr>pending = rs,
          sent = sent w @ [\<lparr>verb = GET,
                form = [(''operation'', [''getchallenge'']), (''username'', [username])]\<rparr>]\<rparr>))
   \<and> (\<forall>err rs. pending w = Undecodable err # rs \<longrightarrow>
      DoLogin md5_Sum username userAccesskey withpassword g w =
        (Return (False, Some (DecodeError err)), g,
         \<lparr>pending = rs,
          sent = sent w @ [\<lparr>verb = GET,
                form = [(''operation'', [''getchallenge'']), (''username'', [username])]\<rparr>]\<rparr>))
   \<and> (\<forall>dat rs. pending w = Envelope dat # rs \<and> map_of dat ''success'' \<noteq> Some (JBool True) \<longrightarrow>
      DoLogin md5_Sum username userAccesskey withpassword g w =
        (Return (False, None), g,
         \<lparr>pending = rs,
          sent = sent w @ [\<lparr>verb = GET,
                form = [(''operation'', [''getchallenge'']), (''username'', [username])]\<rparr>]\<rparr>))"
proof -
  obtain r g1 w1 where c: "doChallenge username g w = (r, g1, w1)"
    by (cases "doChallenge username g w") auto
  then have w1: "sent w1 = sent w @ [\<lparr>verb = GET,
                form = [(''operation'', [''getchallenge'']), (''username'', [username])]\<rparr>]"
    using doChallenge_net [of username g w] by simp
  have first: "\<exists>rest. sent (snd (snd (DoLogin md5_Sum username userAccesskey withpassword g w))) =
       sent w @ \<lparr>verb = GET,
                  form = [(''operation'', [''getchallenge'']), (''username'', [username])]\<rparr> # rest"
    by (simp add: DoLogin_def c w1 Let_def case_prod_beta snd_docbCall
        split: outcome.split option.split)
  have rest: "(pending w = [] \<longrightarrow>
      DoLogin md5_Sum username userAccesskey withpassword g w =
        (Return (False, Some (TransportError ''Client.Timeout exceeded'')), g,
         \<lparr>pending = [],
          sent = sent w @ [\<lparr>verb = GET,
                form = [(''operation'', [''getchallenge'']), (''username'', [username])]\<rparr>]\<rparr>))
   \<and> (\<forall>err rs. pending w = Failed err # rs \<or> pending w = Unreadable err # rs \<longrightarrow>
      DoLogin md5_Sum username userAccesskey withpassword g w =
        (Return (False, Some (TransportError err)), g,
         \<lparr>pending = rs,
          sent = sent w @ [\<lparr>verb = GET,
                form = [(''operation'', [''getchallenge'']), (''username'', [username])]\<rparr>]\<rparr>))
   \<and> (\<forall>err rs. pending w = Undecodable err # rs \<longrightarrow>
      DoLogin md5_Sum username userAccesskey withpassword g w =
        (Return (False, Some (DecodeError err)), g,
         \<lparr>pending = rs,
          sent = sent w @ [\<lparr>verb = GET,
                form = [(''operation'', [''getchallenge'']), (''username'', [username])]\<rparr>]\<rparr>))
   \<and> (\<forall>dat rs. pending w = Envelope dat # rs \<and> map_of dat ''success'' \<noteq> Some (JBool True) \<longrightarrow>
      DoLogin md5_Sum username userAccesskey withpassword g w =
        (Return (False, None), g,
         \<lparr>pending = rs,
          sent = sent w @ [\<lparr>verb = GET,
                form = [(''operation'', [''getchallenge'']), (''username'', [username])]\<rparr>]\<rparr>))"
    by (auto simp add: DoLogin_def doChallenge_def Let_def docbCall_def)
  from first rest show ?thesis by (rule conjI)
qed

theorem DoLogin_challenge_first_witness:
  "DoLogin (\<lambda>text. []) ''admin'' ''cdYTBpiMR9RfGgO'' False package_init \<lparr>pending = [], sent = []\<rparr> =
     (Return (False, Some (TransportError ''Client.Timeout exceeded'')), package_init,
      \<lparr>pending = [],
       sent = [\<lparr>verb = GET,
                 form = [(''operation'', [''getchallenge'']), (''username'', [''admin''])]\<rparr>]\<rparr>)
   \<and> DoLogin (\<lambda>text. []) ''admin'' ''cdYTBpiMR9RfGgO'' False package_init
        \<lparr>pending = [Failed ''connection refused'', Envelope []], sent = []\<rparr> =
     (Return (False, Some (TransportError ''connection refused'')), package_init,
      \<lparr>pending = [Envelope []],
       sent = [\<lparr>verb = GET,
                 form = [(''operation'', [''getchallenge'']), (''username'', [''admin''])]\<rparr>]\<rparr>)
   \<and> DoLogin (\<lambda>text. []) ''admin'' ''cdYTBpiMR9RfGgO'' False package_init
        \<lparr>pending = [Undecodable ''invalid character'', Envelope []], sent = []\<rparr> =
     (Return (False, Some (DecodeError ''invalid character'')), package_init,
      \<lparr>pending = [Envelope []],
       sent = [\<lparr>verb = GET,
                 form = [(''operation'', [''getchallenge'']), (''username'', [''admin''])]\<rparr>]\<rparr>)
   \<and> DoLogin (\<lambda>text. []) ''admin'' ''cdYTBpiMR9RfGgO'' False package_init
        \<lparr>pending = [Envelope [(''success'', JBool False)], Envelope []], sent = []\<rparr> =
     (Return (False, None), package_init,
      \<lparr>pending = [Envelope []],
       sent = [\<lparr>verb = GET,
                 form = [(''operation'', [''getchallenge'']), (''username'', [''admin''])]\<rparr>]\<rparr>)"
  using DoLogin_challenge_first
          [of "\<lambda>text. []" "''admin''" "''cdYTBpiMR9RfGgO''" False package_init "\<lparr>pending = [], sent = []\<rparr>"]
        DoLogin_challenge_first
          [of "\<lambda>text. []" "''admin''" "''cdYTBpiMR9RfGgO''" False package_init
              "\<lparr>pending = [Failed ''connection refused'', Envelope []], sent = []\<rparr>"]
        DoLogin_challenge_first
          [of "\<lambda>text. []" "''admin''" "''cdYTBpiMR9RfGgO''" False package_init
              "\<lparr>pending = [Undecodable ''invalid character'', Envelope []], sent = []\<rparr>"]
        DoLogin_challenge_first
          [of "\<lambda>text. []" "''admin''" "''cdYTBpiMR9RfGgO''" False package_init
              "\<lparr>pending = [Envelope [(''success'', JBool False)], Envelope []], sent = []\<rparr>"]
  by simp


text \<open>
  The access key of the login request. After a successful challenge with token \<open>tk\<close> the
  login request is a POST whose \<open>accessKey\<close> is \<open>tk\<close> followed by the caller's key as it
  is when \<open>withpassword\<close> is set, and otherwise the hexadecimal digest of that same string:
  two lower-case digits per byte of the MD5 sum. The two values differ whenever the
  concatenation is not itself a string of that length over the sixteen digits.
\<close>

lemma DoLogin_sends_accessKey:
  assumes "pending w = Envelope dat # rs"
    and "map_of dat ''success'' = Some (JBool True)"
    and "map_of dat ''result'' = Some (JObj rdo)"
    and "map_of rdo ''serverTime'' = Some (JNum st)"
    and "map_of rdo ''expireTime'' = Some (JStr et)"
    and "map_of rdo ''token'' = Some (JStr tk)"
  shows "sent (snd (snd (DoLogin md5_Sum username userAccesskey withpassword g w))) =
     sent w @
       [\<lparr>verb = GET, form = [(''operation'', [''getchallenge'']), (''username'', [username])]\<rparr>,
        \<lparr>verb = POST,
         form = [(''operation'', [''login'']), (''username'', [username]),
                 (''accessKey'',
                  [if withpassword then tk @ userAccesskey
                   else getMD5Hash md5_Sum (tk @ userAccesskey)])]\<rparr>]"
  using doChallenge_True [OF assms, of username g]
  by (simp add: DoLogin_def Let_def case_prod_beta snd_docbCall Values_Set_def
        split: option.split)

lemma accessKey_modes_differ:
  "length (token' @ userAccesskey) \<noteq> 2 * length (md5_Sum (token' @ userAccesskey))
     \<or> \<not> set (token' @ userAccesskey) \<subseteq> set hextable
   \<Longrightarrow> token' @ userAccesskey \<noteq> getMD5Hash md5_Sum (token' @ userAccesskey)"
  using hex_EncodeToString_length [of "md5_Sum (token' @ userAccesskey)"]
        hex_EncodeToString_digits [of "md5_Sum (token' @ userAccesskey)"]
  by (auto simp add: getMD5Hash_def)

text \<open>
  Claim C5 says that a DoLogin which returns failure leaves every session field as it was.
  It does not when the challenge succeeded and the login request failed: doChallenge has
  already stored the server time, the expiry time and the token.
\<close>

theorem DoLogin_failed_login_keeps_challenge:
  "fst (DoLogin (\<lambda>text. []) ''admin'' ''wrongkey'' True package_init
         \<lparr>pending = [Envelope [(''success'', JBool True),
                                (''result'', JObj [(''token'', JStr ''5b3e2f''),
                                                   (''serverTime'', JNum 1530000000),
                                                   (''expireTime'', JStr ''1530000300'')])],
                      Envelope [(''success'', JBool False),
                                (''error'', JObj [(''code'', JStr ''INVALID_AUTH_TOKEN''),
                                                  (''message'', JStr ''bad key'')])]],
          sent = []\<rparr>)
     = Return (False, Some (errors_New ''INVALID_AUTH_TOKEN: bad key''))
   \<and> fst (snd (DoLogin (\<lambda>text. []) ''admin'' ''wrongkey'' True package_init
         \<lparr>pending = [Envelope [(''success'', JBool True),
                                (''result'', JObj [(''token'', JStr ''5b3e2f''),
                                                   (''serverTime'', JNum 1530000000),
                                                   (''expireTime'', JStr ''1530000300'')])],
                      Envelope [(''success'', JBool False),
                                (''error'', JObj [(''code'', JStr ''INVALID_AUTH_TOKEN''),
                                                  (''message'', JStr ''bad key'')])]],
          sent = []\<rparr>))
     = package_init\<lparr>cbConnection :=
         zero_cbConnection\<lparr>servertime := 1530000000, expiretime := ''1530000300'',
                             token := ''5b3e2f''\<rparr>\<rparr>
   \<and> package_init\<lparr>cbConnection :=
         zero_cbConnection\<lparr>servertime := 1530000000, expiretime := ''1530000300'',
                             token := ''5b3e2f''\<rparr>\<rparr> \<noteq> package_init"
  by (simp add: DoLogin_def doChallenge_def docbCall_def Values_Set_def failed_def wserr_New_def
        package_init_def zero_cbConnection_def)

text \<open>
  Claim C5 as amended. After a DoLogin that returns failure, serviceuser, servicekey,
  sessionid, userid and the column map are as before the call, and the state is the one the
  challenge step left: unchanged when the challenge step itself returned failure, and with
  servertime, expiretime and token of the new challenge when the challenge succeeded and the
  login request failed.
\<close>

theorem DoLogin_failure_frame:
  assumes "DoLogin md5_Sum username userAccesskey withpassword g w = (Return (False, err), g', w')"
  shows "serviceuser (cbConnection g') = serviceuser (cbConnection g)
       \<and> servicekey (cbConnection g') = servicekey (cbConnection g)
       \<and> sessionid (cbConnection g') = sessionid (cbConnection g)
       \<and> userid (cbConnection g') = userid (cbConnection g)
       \<and> queryRestulColumns g' = queryRestulColumns g
       \<and> g' = fst (snd (doChallenge username g w))
       \<and> (\<forall>e. fst (doChallenge username g w) = Return (False, e) \<longrightarrow> g' = g)
       \<and> (\<forall>dat rs rdo st et tk.
            pending w = Envelope dat # rs \<and> map_of dat ''success'' = Some (JBool True)
            \<and> map_of dat ''result'' = Some (JObj rdo) \<and> map_of rdo ''serverTime'' = Some (JNum st)
            \<and> map_of rdo ''expireTime'' = Some (JStr et) \<and> map_of rdo ''token'' = Some (JStr tk)
            \<longrightarrow> g' = g\<lparr>cbConnection :=
                        (cbConnection g)\<lparr>servertime := st, expiretime := et, token := tk\<rparr>\<rparr>)"
proof -
  obtain r g1 w1 where c: "doChallenge username g w = (r, g1, w1)"
    by (cases "doChallenge username g w") auto
  have g': "g' = g1"
    using assms
    by (auto simp add: DoLogin_def c Let_def case_prod_beta split: outcome.splits option.splits if_splits)
  have frame: "serviceuser (cbConnection g1) = serviceuser (cbConnection g)
       \<and> servicekey (cbConnection g1) = servicekey (cbConnection g)
       \<and> sessionid (cbConnection g1) = sessionid (cbConnection g)
       \<and> userid (cbConnection g1) = userid (cbConnection g)
       \<and> queryRestulColumns g1 = queryRestulColumns g"
    using doChallenge_frame [of username g w] by (simp add: c)
  have false: "\<forall>e. fst (doChallenge username g w) = Return (False, e) \<longrightarrow> g1 = g"
    using doChallenge_False [of username g w] by (simp add: c)
  have true: "\<forall>dat rs rdo st et tk.
            pending w = Envelope dat # rs \<and> map_of dat ''success'' = Some (JBool True)
            \<and> map_of dat ''result'' = Some (JObj rdo) \<and> map_of rdo ''serverTime'' = Some (JNum st)
            \<and> map_of rdo ''expireTime'' = Some (JStr et) \<and> map_of rdo ''token'' = Some (JStr tk)
            \<longrightarrow> g1 = g\<lparr>cbConnection :=
                        (cbConnection g)\<lparr>servertime := st, expiretime := et, token := tk\<rparr>\<rparr>"
    using c by (auto dest: doChallenge_True [where username = username and g = g])
  from g' frame false true show ?thesis by (simp add: c)
qed

theorem DoLogin_failure_frame_witness:
  "DoLogin (\<lambda>text. []) ''admin'' ''wrongkey'' True package_init
         \<lparr>pending = [Envelope [(''success'', JBool True),
                                (''result'', JObj [(''token'', JStr ''5b3e2f''),
                                                   (''serverTime'', JNum 1530000000),
                                                   (''expireTime'', JStr ''1530000300'')])],
                      Envelope [(''success'', JBool False),
                                (''error'', JObj [(''code'', JStr ''INVALID_AUTH_TOKEN''),
                                                  (''message'', JStr ''bad key'')])]],
          sent = []\<rparr>
     = (Return (False, Some (errors_New ''INVALID_AUTH_TOKEN: bad key'')),
        package_init\<lparr>cbConnection :=
         zero_cbConnection\<lparr>servertime := 1530000000, expiretime := ''1530000300'',
                             token := ''5b3e2f''\<rparr>\<rparr>,
        \<lparr>pending = [],
         sent = [\<lparr>verb = GET,
                   form = [(''operation'', [''getchallenge'']), (''username'', [''admin''])]\<rparr>,
                 \<lparr>verb = POST,
                   form = [(''operation'', [''login'']), (''username'', [''admin'']),
                           (''accessKey'', [''5b3e2fwrongkey''])]\<rparr>]\<rparr>)
   \<and> sessionid (cbConnection (package_init\<lparr>cbConnection :=
         zero_cbConnection\<lparr>servertime := 1530000000, expiretime := ''1530000300'',
                             token := ''5b3e2f''\<rparr>\<rparr>)) = sessionid (cbConnection package_init)"
proof -
  have run: "DoLogin (\<lambda>text. []) ''admin'' ''wrongkey'' True package_init
         \<lparr>pending = [Envelope [(''success'', JBool True),
                                (''result'', JObj [(''token'', JStr ''5b3e2f''),
                                                   (''serverTime'', JNum 1530000000),
                                                   (''expireTime'', JStr ''1530000300'')])],
                      Envelope [(''success'', JBool False),
                                (''error'', JObj [(''code'', JStr ''INVALID_AUTH_TOKEN''),
                                                  (''message'', JStr ''bad key'')])]],
          sent = []\<rparr>
     = (Return (False, Some (errors_New ''INVALID_AUTH_TOKEN: bad key'')),
        package_init\<lparr>cbConnection :=
         zero_cbConnection\<lparr>servertime := 1530000000, expiretime := ''1530000300'',
                             token := ''5b3e2f''\<rparr>\<rparr>,
        \<lparr>pending = [],
         sent = [\<lparr>verb = GET,
                   form = [(''operation'', [''getchallenge'']), (''username'', [''admin''])]\<rparr>,
                 \<lparr>verb = POST,
                   form = [(''operation'', [''login'']), (''username'', [''admin'']),
                           (''accessKey'', [''5b3e2fwrongkey''])]\<rparr>]\<rparr>)"
    by (simp add: DoLogin_def doChallenge_def docbCall_def Values_Set_def failed_def wserr_New_def
        package_init_def zero_cbConnection_def)
  from DoLogin_failure_frame [OF run] have
    "sessionid (cbConnection (package_init\<lparr>cbConnection :=
         zero_cbConnection\<lparr>servertime := 1530000000, expiretime := ''1530000300'',
                             token := ''5b3e2f''\<rparr>\<rparr>)) = sessionid (cbConnection package_init)"
    by blast
  with run show ?thesis by (rule conjI)
qed


section \<open>Errors reported by the service\<close>

text \<open>
  Claim C3 says that every operation turns an envelope with \<open>success=false\<close> and an error
  object into the error text \<open>code: message\<close>. DoLogin does not when that envelope answers
  its getchallenge request: it returns \<open>false\<close> with a nil error.
\<close>

theorem DoLogin_hides_challenge_error:
  "DoLogin (\<lambda>text. []) ''admin'' ''cdYTBpiMR9RfGgO'' False package_init
     \<lparr>pending = [Envelope [(''success'', JBool False),
                            (''error'', JObj [(''code'', JStr ''INVALID_SESSION''),
                                              (''message'', JStr ''bad session'')])]],
      sent = []\<rparr>
   = (Return (False, None), package_init,
      \<lparr>pending = [],
       sent = [\<lparr>verb = GET,
                 form = [(''operation'', [''getchallenge'']), (''username'', [''admin''])]\<rparr>]\<rparr>)"
  by (simp add: DoLogin_def doChallenge_def docbCall_def)

text \<open>
  Claim C3 as amended. When the request of an operation is answered by a decoded envelope
  whose \<open>success\<close> is not \<open>true\<close> and whose \<open>error\<close> object has the strings \<open>code\<close>
  and \<open>message\<close>, the operation returns its zero result and an error made by
  \<^verbatim>\<open>errors.New\<close> whose text is \<open>code\<close>, then \<open>: \<close>, then \<open>message\<close>. This holds for the
  login request of DoLogin (sent after a successful challenge), for DoLogout, DoQuery,
  DoListTypes, DoDescribe, DoRetrieve, DoDelete, DoGetRelatedRecords, DoSetRelated,
  DoLoginPage, for DoCreate, DoUpdate and DoRevise called with a map that is not nil, and
  for DoInvoke once its parameter loop has built the request. The getchallenge request is
  the exception shown above.
\<close>

theorem remote_error_text:
  assumes env: "pending w = Envelope dat # rs"
    and nosuccess: "map_of dat ''success'' \<noteq> Some (JBool True)"
    and err: "map_of dat ''error'' = Some (JObj wserr)"
    and code: "map_of wserr ''code'' = Some (JStr code)"
    and message: "map_of wserr ''message'' = Some (JStr message)"
  shows "Error (errors_New (code @ '': '' @ message)) = code @ '': '' @ message
    \<and> (\<forall>chal rdo st et tk.
          map_of chal ''success'' = Some (JBool True) \<and> map_of chal ''result'' = Some (JObj rdo)
          \<and> map_of rdo ''serverTime'' = Some (JNum st) \<and> map_of rdo ''expireTime'' = Some (JStr et)
          \<and> map_of rdo ''token'' = Some (JStr tk) \<longrightarrow>
          fst (DoLogin md5_Sum username userAccesskey withpassword g
                 \<lparr>pending = Envelope chal # pending w, sent = sent w\<rparr>)
            = Return (False, Some (errors_New (code @ '': '' @ message))))
    \<and> fst (DoLogout g w) = Return (False, Some (errors_New (code @ '': '' @ message)))
    \<and> fst (DoQuery query g w) = Return (JObj [], Some (errors_New (code @ '': '' @ message)))
    \<and> fst (DoListTypes Marshal fieldTypeList g w)
        = Return (Map.empty, Some (errors_New (code @ '': '' @ message)))
    \<and> fst (DoDescribe module' g w) = Return ([], Some (errors_New (code @ '': '' @ message)))
    \<and> fst (DoRetrieve record' g w) = Return ([], Some (errors_New (code @ '': '' @ message)))
    \<and> fst (DoCreate Marshal module' (Some valuemap) g w)
        = Return ([], Some (errors_New (code @ '': '' @ message)))
    \<and> fst (DoUpdate Marshal module' (Some valuemap) g w)
        = Return ([], Some (errors_New (code @ '': '' @ message)))
    \<and> fst (DoRevise Marshal module' (Some valuemap) g w)
        = Return ([], Some (errors_New (code @ '': '' @ message)))
    \<and> fst (DoDelete record' g w) = Return (False, Some (errors_New (code @ '': '' @ message)))
    \<and> (\<forall>v. range_params (entries params)
               [(''operation'', [method']), (''sessionName'', [sessionid (cbConnection g)])] = Some v
          \<longrightarrow> fst (DoInvoke method' params typeofcall g w)
                = Return ([], Some (errors_New (code @ '': '' @ message))))
    \<and> fst (DoGetRelatedRecords Marshal record' module' relatedModule queryParameters g w)
        = Return ([], Some (errors_New (code @ '': '' @ message)))
    \<and> fst (DoSetRelated Marshal relateThisID withTheseIds g w)
        = Return (False, Some (errors_New (code @ '': '' @ message)))
    \<and> fst (DoLoginPage template language csrf g w)
        = Return ([], Some (errors_New (code @ '': '' @ message)))"
proof -
  note call = fst_docbCall_Envelope [OF env]
  note fail = failed_wserr [OF err code message]
  have login: "\<forall>chal rdo st et tk.
          map_of chal ''success'' = Some (JBool True) \<and> map_of chal ''result'' = Some (JObj rdo)
          \<and> map_of rdo ''serverTime'' = Some (JNum st) \<and> map_of rdo ''expireTime'' = Some (JStr et)
          \<and> map_of rdo ''token'' = Some (JStr tk) \<longrightarrow>
          fst (DoLogin md5_Sum username userAccesskey withpassword g
                 \<lparr>pending = Envelope chal # pending w, sent = sent w\<rparr>)
            = Return (False, Some (errors_New (code @ '': '' @ message)))"
  proof (intro allI impI)
    fix chal rdo st et tk
    assume c: "map_of chal ''success'' = Some (JBool True) \<and> map_of chal ''result'' = Some (JObj rdo)
          \<and> map_of rdo ''serverTime'' = Some (JNum st) \<and> map_of rdo ''expireTime'' = Some (JStr et)
          \<and> map_of rdo ''token'' = Some (JStr tk)"
    have "doChallenge username g \<lparr>pending = Envelope chal # pending w, sent = sent w\<rparr> =
       (Return (True, None),
        g\<lparr>cbConnection := (cbConnection g)\<lparr>servertime := st, expiretime := et, token := tk\<rparr>\<rparr>,
        \<lparr>pending = pending w,
         sent = sent w @ [\<lparr>verb = GET,
                         form = [(''operation'', [''getchallenge'']), (''username'', [username])]\<rparr>]\<rparr>)"
      using c doChallenge_True [of "\<lparr>pending = Envelope chal # pending w, sent = sent w\<rparr>"
                                   chal "pending w" rdo st et tk username g]
      by simp
    then show "fst (DoLogin md5_Sum username userAccesskey withpassword g
                 \<lparr>pending = Envelope chal # pending w, sent = sent w\<rparr>)
            = Return (False, Some (errors_New (code @ '': '' @ message)))"
      using nosuccess
      by (simp add: DoLogin_def Let_def case_prod_beta fst_docbCall_Envelope [of _ dat rs] env fail)
  qed
  have logout: "fst (DoLogout g w) = Return (False, Some (errors_New (code @ '': '' @ message)))"
    using nosuccess by (simp add: DoLogout_def Let_def case_prod_beta call fail)
  have query: "fst (DoQuery query g w) = Return (JObj [], Some (errors_New (code @ '': '' @ message)))"
    using nosuccess by (simp add: DoQuery_def Let_def case_prod_beta call fail)
  have listtypes: "fst (DoListTypes Marshal fieldTypeList g w)
        = Return (Map.empty, Some (errors_New (code @ '': '' @ message)))"
    using nosuccess by (simp add: DoListTypes_def Let_def case_prod_beta call fail)
  have describe: "fst (DoDescribe module' g w) = Return ([], Some (errors_New (code @ '': '' @ message)))"
    using nosuccess by (simp add: DoDescribe_def Let_def case_prod_beta call fail)
  have retrieve: "fst (DoRetrieve record' g w) = Return ([], Some (errors_New (code @ '': '' @ message)))"
    using nosuccess by (simp add: DoRetrieve_def Let_def case_prod_beta call fail)
  have create: "fst (DoCreate Marshal module' (Some valuemap) g w)
        = Return ([], Some (errors_New (code @ '': '' @ message)))"
    using nosuccess by (simp add: DoCreate_def Let_def case_prod_beta call fail)
  have update: "fst (DoUpdate Marshal module' (Some valuemap) g w)
        = Return ([], Some (errors_New (code @ '': '' @ message)))"
    using nosuccess by (simp add: DoUpdate_def Let_def case_prod_beta call fail)
  have revise: "fst (DoRevise Marshal module' (Some valuemap) g w)
        = Return ([], Some (errors_New (code @ '': '' @ message)))"
    using nosuccess by (simp add: DoRevise_def Let_def case_prod_beta call fail)
  have delete: "fst (DoDelete record' g w) = Return (False, Some (errors_New (code @ '': '' @ message)))"
    using nosuccess by (simp add: DoDelete_def Let_def case_prod_beta call fail)
  have invoke: "\<forall>v. range_params (entries params)
               [(''operation'', [method']), (''sessionName'', [sessionid (cbConnection g)])] = Some v
          \<longrightarrow> fst (DoInvoke method' params typeofcall g w)
                = Return ([], Some (errors_New (code @ '': '' @ message)))"
    using nosuccess by (simp add: DoInvoke_def Let_def case_prod_beta call fail)
  have related: "fst (DoGetRelatedRecords Marshal record' module' relatedModule queryParameters g w)
        = Return ([], Some (errors_New (code @ '': '' @ message)))"
    using nosuccess by (simp add: DoGetRelatedRecords_def Let_def case_prod_beta call fail)
  have setrelated: "fst (DoSetRelated Marshal relateThisID withTheseIds g w)
        = Return (False, Some (errors_New (code @ '': '' @ message)))"
    using nosuccess by (simp add: DoSetRelated_def Let_def case_prod_beta call fail)
  have loginpage: "fst (DoLoginPage template language csrf g w)
        = Return ([], Some (errors_New (code @ '': '' @ message)))"
    using nosuccess by (simp add: DoLoginPage_def Let_def case_prod_beta call fail)
  have etext: "Error (errors_New (code @ '': '' @ message)) = code @ '': '' @ message"
    by simp
  from etext login logout query listtypes describe retrieve create update revise delete invoke
    related setrelated loginpage
  show ?thesis by blast
qed

theorem remote_error_text_witness:
  "Error (errors_New (''INVALID_SESSION'' @ '': '' @ ''bad session'')) = ''INVALID_SESSION: bad session''
   \<and> fst (DoLogin (\<lambda>text. []) ''admin'' ''cdYTBpiMR9RfGgO'' True package_init
        \<lparr>pending = [Envelope [(''success'', JBool True),
                               (''result'', JObj [(''token'', JStr ''5b3e2f''),
                                                  (''serverTime'', JNum 1530000000),
                                                  (''expireTime'', JStr ''1530000300'')])],
                     Envelope [(''success'', JBool False),
                               (''error'', JObj [(''code'', JStr ''INVALID_SESSION''),
                                                 (''message'', JStr ''bad session'')])]],
         sent = []\<rparr>)
       = Return (False, Some (errors_New (''INVALID_SESSION'' @ '': '' @ ''bad session'')))
   \<and> fst (DoQuery ''select * from Contacts'' package_init
        \<lparr>pending = [Envelope [(''success'', JBool False),
                               (''error'', JObj [(''code'', JStr ''INVALID_SESSION''),
                                                 (''message'', JStr ''bad session'')])]],
         sent = []\<rparr>)
       = Return (JObj [], Some (errors_New (''INVALID_SESSION'' @ '': '' @ ''bad session'')))
   \<and> fst (DoInvoke ''getPortalUserInfo'' (Some [(''id'', JStr ''12x5'')]) ''post'' package_init
        \<lparr>pending = [Envelope [(''success'', JBool False),
                               (''error'', JObj [(''code'', JStr ''INVALID_SESSION''),
                                                 (''message'', JStr ''bad session'')])]],
         sent = []\<rparr>)
       = Return ([], Some (errors_New (''INVALID_SESSION'' @ '': '' @ ''bad session'')))"
  using remote_error_text
    [where w = "\<lparr>pending = [Envelope [(''success'', JBool False),
                               (''error'', JObj [(''code'', JStr ''INVALID_SESSION''),
                                                 (''message'', JStr ''bad session'')])]],
         sent = []\<rparr>"
       and dat = "[(''success'', JBool False),
          (''error'', JObj [(''code'', JStr ''INVALID_SESSION''), (''message'', JStr ''bad session'')])]"
       and rs = "[]"
       and wserr = "[(''code'', JStr ''INVALID_SESSION''), (''message'', JStr ''bad session'')]"
       and code = "''INVALID_SESSION''" and message = "''bad session''"
       and ?md5_Sum = "\<lambda>text. []" and username = "''admin''"
       and userAccesskey = "''cdYTBpiMR9RfGgO''" and withpassword = True and g = package_init
       and query = "''select * from Contacts''" and params = "Some [(''id'', JStr ''12x5'')]"
       and method' = "''getPortalUserInfo''" and typeofcall = "''post''"]
  by (simp add: Values_Get_def Values_Set_def package_init_def zero_cbConnection_def)


section \<open>Columns of the last query\<close>

text \<open>
  Claim C7: after a successful DoQuery with a non-empty result, GetResultColumns maps
  0, 1, ... to exactly the keys of the first row, and after an empty result it is the empty
  map. The second half holds (\<open>DoQuery_columns\<close>). The first half fails when an earlier
  query had more columns: the non-empty branch overwrites indices 0 to n-1 and never clears
  the map, so the entry at index 2 of the first query below outlives the second query, whose
  rows have only the keys \<open>id\<close> and \<open>name\<close>.
\<close>

theorem DoQuery_keeps_stale_columns:
  "DoQuery ''select id,firstname,lastname from Contacts'' package_init
     \<lparr>pending = [Envelope [(''success'', JBool True),
                            (''result'', JArr [JObj [(''id'', JStr ''12x1''),
                                                     (''firstname'', JStr ''Ada''),
                                                     (''lastname'', JStr ''Byron'')]])],
                  Envelope [(''success'', JBool True),
                            (''result'', JArr [JObj [(''id'', JStr ''1''), (''name'', JStr ''A'')],
                                               JObj [(''id'', JStr ''2''), (''name'', JStr ''B'')]])]],
      sent = []\<rparr>
   = (Return (JArr [JObj [(''id'', JStr ''12x1''), (''firstname'', JStr ''Ada''),
                          (''lastname'', JStr ''Byron'')]], None),
      package_init\<lparr>queryRestulColumns := [0 \<mapsto> ''id'', 1 \<mapsto> ''firstname'', 2 \<mapsto> ''lastname'']\<rparr>,
      \<lparr>pending = [Envelope [(''success'', JBool True),
                            (''result'', JArr [JObj [(''id'', JStr ''1''), (''name'', JStr ''A'')],
                                               JObj [(''id'', JStr ''2''), (''name'', JStr ''B'')]])]],
       sent = [\<lparr>verb = GET,
                 form = [(''operation'', [''query'']), (''sessionName'', [[]]),
                         (''query'', [''select id,firstname,lastname from Contacts;''])]\<rparr>]\<rparr>)
   \<and> fst (DoQuery ''select id,name from Accounts''
        (package_init\<lparr>queryRestulColumns := [0 \<mapsto> ''id'', 1 \<mapsto> ''firstname'', 2 \<mapsto> ''lastname'']\<rparr>)
        \<lparr>pending = [Envelope [(''success'', JBool True),
                            (''result'', JArr [JObj [(''id'', JStr ''1''), (''name'', JStr ''A'')],
                                               JObj [(''id'', JStr ''2''), (''name'', JStr ''B'')]])]],
         sent = [\<lparr>verb = GET,
                 form = [(''operation'', [''query'']), (''sessionName'', [[]]),
                         (''query'', [''select id,firstname,lastname from Contacts;''])]\<rparr>]\<rparr>)
     = Return (JArr [JObj [(''id'', JStr ''1''), (''name'', JStr ''A'')],
                     JObj [(''id'', JStr ''2''), (''name'', JStr ''B'')]], None)
   \<and> GetResultColumns (fst (snd (DoQuery ''select id,name from Accounts''
        (package_init\<lparr>queryRestulColumns := [0 \<mapsto> ''id'', 1 \<mapsto> ''firstname'', 2 \<mapsto> ''lastname'']\<rparr>)
        \<lparr>pending = [Envelope [(''success'', JBool True),
                            (''result'', JArr [JObj [(''id'', JStr ''1''), (''name'', JStr ''A'')],
                                               JObj [(''id'', JStr ''2''), (''name'', JStr ''B'')]])]],
         sent = [\<lparr>verb = GET,
                 form = [(''operation'', [''query'']), (''sessionName'', [[]]),
                         (''query'', [''select id,firstname,lastname from Contacts;''])]\<rparr>]\<rparr>)))
     = [0 \<mapsto> ''id'', 1 \<mapsto> ''name'', 2 \<mapsto> ''lastname'']
   \<and> [0 \<mapsto> ''id'', 1 \<mapsto> ''name'', 2 \<mapsto> ''lastname''] \<noteq> [0 \<mapsto> ''id'', (1::nat) \<mapsto> ''name'']"
proof -
  have a: "range_columns [''id'', ''firstname'', ''lastname''] 0 Map.empty
             = [0 \<mapsto> ''id'', 1 \<mapsto> ''firstname'', 2 \<mapsto> ''lastname'']"
    by (rule ext) simp
  have b: "range_columns [''id'', ''name''] 0 [0 \<mapsto> ''id'', 1 \<mapsto> ''firstname'', 2 \<mapsto> ''lastname'']
             = [0 \<mapsto> ''id'', 1 \<mapsto> ''name'', 2 \<mapsto> ''lastname'']"
    by (rule ext) simp
  have c: "[0 \<mapsto> ''id'', 1 \<mapsto> ''name'', 2 \<mapsto> ''lastname''] \<noteq> [0 \<mapsto> ''id'', (1::nat) \<mapsto> ''name'']"
  proof
    assume "[0 \<mapsto> ''id'', 1 \<mapsto> ''name'', 2 \<mapsto> ''lastname''] = [0 \<mapsto> ''id'', (1::nat) \<mapsto> ''name'']"
    then have "[0 \<mapsto> ''id'', 1 \<mapsto> ''name'', 2 \<mapsto> ''lastname''] (2::nat) = [0 \<mapsto> ''id'', (1::nat) \<mapsto> ''name''] 2"
      by simp
    then show False by simp
  qed
  show ?thesis
    by (simp add: DoQuery_def GetResultColumns_def docbCall_def Trim_def
          package_init_def zero_cbConnection_def a b c del: range_columns.simps One_nat_def)
qed

section \<open>Default owner of created and updated records\<close>

text \<open>
  Claim C8 speaks of every field map. A nil map is a value of the parameter's type too, and
  has no \<open>assigned_user_id\<close>; for it the assignment of the default panics, the key is not
  set and no request is sent.
\<close>

theorem DoCreate_nil_map_panics:
  "DoCreate (\<lambda>j. ''null'') ''Contacts'' None
     (package_init\<lparr>cbConnection := zero_cbConnection\<lparr>userid := ''19x1''\<rparr>\<rparr>)
     \<lparr>pending = [Envelope [(''success'', JBool True), (''result'', JObj [(''id'', JStr ''12x9'')])]],
      sent = []\<rparr>
   = (Panic, None,
      \<lparr>pending = [Envelope [(''success'', JBool True), (''result'', JObj [(''id'', JStr ''12x9'')])]],
       sent = []\<rparr>)"
  by (simp add: DoCreate_def)

text \<open>
  Claim C8 as amended. For every module name and every field map that is not nil, DoCreate,
  DoUpdate and DoRevise add \<open>assigned_user_id\<close> with the session's userid to the caller's
  map exactly when the map has no such key; with the key present the map is left as it is.
  In both cases every other key keeps its value, and the \<open>element\<close> parameter of the request
  sent is the serialisation of the resulting map. With a nil map the three operations panic
  and send nothing.
\<close>

theorem assigned_user_id_default:
  "fst (snd (DoCreate Marshal module' (Some valuemap) g w))
     = Some (if map_of valuemap ''assigned_user_id'' = None
             then valuemap @ [(''assigned_user_id'', JStr (userid (cbConnection g)))]
             else valuemap)
   \<and> fst (snd (DoUpdate Marshal module' (Some valuemap) g w))
       = fst (snd (DoCreate Marshal module' (Some valuemap) g w))
   \<and> fst (snd (DoRevise Marshal module' (Some valuemap) g w))
       = fst (snd (DoCreate Marshal module' (Some valuemap) g w))
   \<and> (\<forall>k. k \<noteq> ''assigned_user_id'' \<longrightarrow>
         map_of (entries (fst (snd (DoCreate Marshal module' (Some valuemap) g w)))) k
           = map_of valuemap k)
   \<and> map_of (entries (fst (snd (DoCreate Marshal module' (Some valuemap) g w)))) ''assigned_user_id''
       = (case map_of valuemap ''assigned_user_id'' of
            None \<Rightarrow> Some (JStr (userid (cbConnection g))) | Some given \<Rightarrow> Some given)
   \<and> sent (snd (snd (DoCreate Marshal module' (Some valuemap) g w)))
       = sent w @ [\<lparr>verb = POST,
                    form = [(''operation'', [''create'']),
                            (''sessionName'', [sessionid (cbConnection g)]),
                            (''elementType'', [module']),
                            (''element'',
                             [Marshal (map_interface
                                (fst (snd (DoCreate Marshal module' (Some valuemap) g w))))])]\<rparr>]
   \<and> sent (snd (snd (DoUpdate Marshal module' (Some valuemap) g w)))
       = sent w @ [\<lparr>verb = POST,
                    form = [(''operation'', [''update'']),
                            (''sessionName'', [sessionid (cbConnection g)]),
                            (''elementType'', [module']),
                            (''element'',
                             [Marshal (map_interface
                                (fst (snd (DoCreate Marshal module' (Some valuemap) g w))))])]\<rparr>]
   \<and> sent (snd (snd (DoRevise Marshal module' (Some valuemap) g w)))
       = sent w @ [\<lparr>verb = POST,
                    form = [(''operation'', [''revise'']),
                            (''sessionName'', [sessionid (cbConnection g)]),
                            (''elementType'', [module']),
                            (''element'',
                             [Marshal (map_interface
                                (fst (snd (DoCreate Marshal module' (Some valuemap) g w))))])]\<rparr>]
   \<and> DoCreate Marshal module' None g w = (Panic, None, w)
   \<and> DoUpdate Marshal module' None g w = (Panic, None, w)
   \<and> DoRevise Marshal module' None g w = (Panic, None, w)"
proof -
  let ?vm = "if map_of valuemap ''assigned_user_id'' = None
             then valuemap @ [(''assigned_user_id'', JStr (userid (cbConnection g)))]
             else valuemap"
  have vm: "fst (snd (DoCreate Marshal module' (Some valuemap) g w)) = Some ?vm"
    by (cases "map_of valuemap ''assigned_user_id''")
       (simp_all add: DoCreate_def Let_def case_prod_beta update_absent split: option.split)
  have vmu: "fst (snd (DoUpdate Marshal module' (Some valuemap) g w)) = Some ?vm"
    by (cases "map_of valuemap ''assigned_user_id''")
       (simp_all add: DoUpdate_def Let_def case_prod_beta update_absent split: option.split)
  have vmr: "fst (snd (DoRevise Marshal module' (Some valuemap) g w)) = Some ?vm"
    by (cases "map_of valuemap ''assigned_user_id''")
       (simp_all add: DoRevise_def Let_def case_prod_beta update_absent split: option.split)
  have other: "\<forall>k. k \<noteq> ''assigned_user_id'' \<longrightarrow> map_of (entries (Some ?vm)) k = map_of valuemap k"
    by (auto simp add: map_add_def split: option.split)
  have key: "map_of (entries (Some ?vm)) ''assigned_user_id''
        = (case map_of valuemap ''assigned_user_id'' of
             None \<Rightarrow> Some (JStr (userid (cbConnection g))) | Some given \<Rightarrow> Some given)"
    by (simp add: map_add_def split: option.split)
  have sc: "sent (snd (snd (DoCreate Marshal module' (Some valuemap) g w)))
       = sent w @ [\<lparr>verb = POST,
                    form = [(''operation'', [''create'']),
                            (''sessionName'', [sessionid (cbConnection g)]),
                            (''elementType'', [module']),
                            (''element'', [Marshal (map_interface (Some ?vm))])]\<rparr>]"
    by (cases "map_of valuemap ''assigned_user_id''")
       (simp_all add: DoCreate_def Let_def case_prod_beta update_absent snd_docbCall
          split: option.split)
  have su: "sent (snd (snd (DoUpdate Marshal module' (Some valuemap) g w)))
       = sent w @ [\<lparr>verb = POST,
                    form = [(''operation'', [''update'']),
                            (''sessionName'', [sessionid (cbConnection g)]),
                            (''elementType'', [module']),
                            (''element'', [Marshal (map_interface (Some ?vm))])]\<rparr>]"
    by (cases "map_of valuemap ''assigned_user_id''")
       (simp_all add: DoUpdate_def Let_def case_prod_beta update_absent snd_docbCall
          split: option.split)
  have sr: "sent (snd (snd (DoRevise Marshal module' (Some valuemap) g w)))
       = sent w @ [\<lparr>verb = POST,
                    form = [(''operation'', [''revise'']),
                            (''sessionName'', [sessionid (cbConnection g)]),
                            (''elementType'', [module']),
                            (''element'', [Marshal (map_interface (Some ?vm))])]\<rparr>]"
    by (cases "map_of valuemap ''assigned_user_id''")
       (simp_all add: DoRevise_def Let_def case_prod_beta update_absent snd_docbCall
          split: option.split)
  have nil: "DoCreate Marshal module' None g w = (Panic, None, w)"
    "DoUpdate Marshal module' None g w = (Panic, None, w)"
    "DoRevise Marshal module' None g w = (Panic, None, w)"
    by (simp_all add: DoCreate_def DoUpdate_def DoRevise_def)
  from vmu vmr other key sc su sr nil show ?thesis
    unfolding vm by blast
qed

theorem assigned_user_id_default_witness:
  "fst (snd (DoCreate (\<lambda>j. ''{}'') ''Contacts'' (Some [(''lastname'', JStr ''Byron'')])
              (package_init\<lparr>cbConnection := zero_cbConnection\<lparr>userid := ''19x1''\<rparr>\<rparr>)
              \<lparr>pending = [], sent = []\<rparr>))
     = Some [(''lastname'', JStr ''Byron''), (''assigned_user_id'', JStr ''19x1'')]
   \<and> fst (snd (DoCreate (\<lambda>j. ''{}'') ''Contacts''
              (Some [(''assigned_user_id'', JStr ''19x5''), (''lastname'', JStr ''Byron'')])
              (package_init\<lparr>cbConnection := zero_cbConnection\<lparr>userid := ''19x1''\<rparr>\<rparr>)
              \<lparr>pending = [], sent = []\<rparr>))
     = Some [(''assigned_user_id'', JStr ''19x5''), (''lastname'', JStr ''Byron'')]
   \<and> map_of (entries (fst (snd (DoCreate (\<lambda>j. ''{}'') ''Contacts''
              (Some [(''lastname'', JStr ''Byron'')])
              (package_init\<lparr>cbConnection := zero_cbConnection\<lparr>userid := ''19x1''\<rparr>\<rparr>)
              \<lparr>pending = [], sent = []\<rparr>)))) ''lastname''
     = Some (JStr ''Byron'')"
  using assigned_user_id_default
          [of "\<lambda>j. ''{}''" "''Contacts''" "[(''lastname'', JStr ''Byron'')]"
              "package_init\<lparr>cbConnection := zero_cbConnection\<lparr>userid := ''19x1''\<rparr>\<rparr>"
              "\<lparr>pending = [], sent = []\<rparr>"]
        assigned_user_id_default
          [of "\<lambda>j. ''{}''" "''Contacts''"
              "[(''assigned_user_id'', JStr ''19x5''), (''lastname'', JStr ''Byron'')]"
              "package_init\<lparr>cbConnection := zero_cbConnection\<lparr>userid := ''19x1''\<rparr>\<rparr>"
              "\<lparr>pending = [], sent = []\<rparr>"]
  by (simp add: package_init_def zero_cbConnection_def)

section \<open>Deleting a record\<close>

text \<open>
  Claim C9 says that with \<open>success=true\<close> any status other than \<open>successful\<close> makes
  DoDelete return a local error. A status that is not a string does not: the type assertion
  \<^verbatim>\<open>rdo["status"].(string)\<close> panics and nothing is returned.
\<close>

theorem DoDelete_panics_on_other_status:
  "DoDelete ''12x7'' package_init
     \<lparr>pending = [Envelope [(''success'', JBool True),
                            (''result'', JObj [(''status'', JNum 0)])]],
      sent = []\<rparr>
   = (Panic,
      \<lparr>pending = [],
       sent = [\<lparr>verb = POST,
                 form = [(''operation'', [''delete'']), (''sessionName'', [[]]),
                         (''id'', [''12x7''])]\<rparr>]\<rparr>)"
  by (simp add: DoDelete_def docbCall_def package_init_def zero_cbConnection_def)

text \<open>
  Claim C9 as amended. DoDelete returns \<open>(true, nil)\<close> exactly when its request is answered
  by an envelope with \<open>success=true\<close> whose result is an object with the string status
  \<open>successful\<close>. With \<open>success=true\<close> and any other string as status it returns \<open>false\<close> and
  the error \<open>Unexpected DELETE error\<close>, made locally; that text is not of the form
  \<open>code: message\<close> of the errors reported by the service.
\<close>

theorem DoDelete_status:
  "(fst (DoDelete record' g w) = Return (True, None) \<longleftrightarrow>
      (\<exists>dat rs rdo. pending w = Envelope dat # rs \<and> map_of dat ''success'' = Some (JBool True)
         \<and> map_of dat ''result'' = Some (JObj rdo)
         \<and> map_of rdo ''status'' = Some (JStr ''successful'')))
   \<and> (\<forall>dat rs rdo status.
         pending w = Envelope dat # rs \<and> map_of dat ''success'' = Some (JBool True)
         \<and> map_of dat ''result'' = Some (JObj rdo) \<and> map_of rdo ''status'' = Some (JStr status)
         \<and> status \<noteq> ''successful''
         \<longrightarrow> fst (DoDelete record' g w) = Return (False, Some (errors_New ''Unexpected DELETE error'')))
   \<and> (\<forall>code message. Error (errors_New ''Unexpected DELETE error'') \<noteq> code @ '': '' @ message)"
proof (intro conjI)
  show "fst (DoDelete record' g w) = Return (True, None) \<longleftrightarrow>
      (\<exists>dat rs rdo. pending w = Envelope dat # rs \<and> map_of dat ''success'' = Some (JBool True)
         \<and> map_of dat ''result'' = Some (JObj rdo)
         \<and> map_of rdo ''status'' = Some (JStr ''successful''))"
  proof
    assume ok: "fst (DoDelete record' g w) = Return (True, None)"
    let ?c = "fst (docbCall ''POST'' [(''operation'', [''delete'']),
                 (''sessionName'', [sessionid (cbConnection g)]), (''id'', [record'])] w)"
    obtain b dat e where c: "?c = (b, dat, e)" by (cases ?c) auto
    from ok c have e: "e = None" and s: "map_of dat ''success'' = Some (JBool True)"
      by (auto simp add: DoDelete_def Let_def case_prod_beta failed_def
            split: option.splits if_splits)
    from ok c e s obtain rdo where r: "map_of dat ''result'' = Some (JObj rdo)"
      and st: "map_of rdo ''status'' = Some (JStr ''successful'')"
      by (auto simp add: DoDelete_def Let_def case_prod_beta
            elim!: assertMap.elims assertString.elims split: option.splits if_splits)
    from c e obtain rs where "pending w = Envelope dat # rs"
      by (auto simp add: docbCall_def Let_def split: list.splits reply.splits)
    with s r st show "\<exists>dat rs rdo. pending w = Envelope dat # rs
         \<and> map_of dat ''success'' = Some (JBool True)
         \<and> map_of dat ''result'' = Some (JObj rdo)
         \<and> map_of rdo ''status'' = Some (JStr ''successful'')"
      by blast
  next
    assume "\<exists>dat rs rdo. pending w = Envelope dat # rs \<and> map_of dat ''success'' = Some (JBool True)
         \<and> map_of dat ''result'' = Some (JObj rdo)
         \<and> map_of rdo ''status'' = Some (JStr ''successful'')"
    then show "fst (DoDelete record' g w) = Return (True, None)"
      by (auto simp add: DoDelete_def Let_def case_prod_beta fst_docbCall_Envelope)
  qed
next
  show "\<forall>dat rs rdo status.
         pending w = Envelope dat # rs \<and> map_of dat ''success'' = Some (JBool True)
         \<and> map_of dat ''result'' = Some (JObj rdo) \<and> map_of rdo ''status'' = Some (JStr status)
         \<and> status \<noteq> ''successful''
         \<longrightarrow> fst (DoDelete record' g w) = Return (False, Some (errors_New ''Unexpected DELETE error''))"
    by (auto simp add: DoDelete_def Let_def case_prod_beta fst_docbCall_Envelope)
next
  show "\<forall>code message. Error (errors_New ''Unexpected DELETE error'') \<noteq> code @ '': '' @ message"
    using not_remote_formatted by simp
qed

theorem DoDelete_status_witness:
  "fst (DoDelete ''12x7'' package_init
     \<lparr>pending = [Envelope [(''success'', JBool True),
                            (''result'', JObj [(''status'', JStr ''successful'')])]],
      sent = []\<rparr>) = Return (True, None)
   \<and> fst (DoDelete ''12x7'' package_init
     \<lparr>pending = [Envelope [(''success'', JBool True),
                            (''result'', JObj [(''status'', JStr ''failed'')])]],
      sent = []\<rparr>) = Return (False, Some (errors_New ''Unexpected DELETE error''))"
  using DoDelete_status
          [of "''12x7''" package_init
              "\<lparr>pending = [Envelope [(''success'', JBool True),
                            (''result'', JObj [(''status'', JStr ''successful'')])]],
                sent = []\<rparr>"]
        DoDelete_status
          [of "''12x7''" package_init
              "\<lparr>pending = [Envelope [(''success'', JBool True),
                            (''result'', JObj [(''status'', JStr ''failed'')])]],
                sent = []\<rparr>"]
  by simp


section \<open>The two source files agree\<close>

text \<open>
  Claim C10. The per-session implementation is the package-level one with the state moved
  into the \<^verbatim>\<open>cbContext\<close>: \<open>as_globals\<close> is a bijection between the two states that maps
  a fresh context to the initial package state, and for every operation, from corresponding
  states and the same network (any replies still to come, any requests already sent), both
  files send the same requests, consume the same replies, return the same outcome (result,
  error or panic) and end in corresponding states. Corresponding states are kept by every
  operation, so the same holds along any sequence of calls.
\<close>

theorem cbContext_equivalent:
  "as_globals GetCbContext = package_init
   \<and> as_cbContext (as_globals cbCtx) = cbCtx
   \<and> as_globals (as_cbContext g) = g
   \<and> map_prod id (map_prod as_globals id) (cbCtx_doChallenge username cbCtx w)
       = doChallenge username (as_globals cbCtx) w
   \<and> map_prod id (map_prod as_globals id)
         (cbCtx_DoLogin md5_Sum username userAccesskey withpassword cbCtx w)
       = DoLogin md5_Sum username userAccesskey withpassword (as_globals cbCtx) w
   \<and> cbCtx_DoLogout cbCtx w = DoLogout (as_globals cbCtx) w
   \<and> map_prod id (map_prod as_globals id) (cbCtx_DoQuery query cbCtx w)
       = DoQuery query (as_globals cbCtx) w
   \<and> cbCtx_GetResultColumns cbCtx = GetResultColumns (as_globals cbCtx)
   \<and> cbCtx_DoListTypes Marshal fieldTypeList cbCtx w
       = DoListTypes Marshal fieldTypeList (as_globals cbCtx) w
   \<and> cbCtx_DoDescribe module' cbCtx w = DoDescribe module' (as_globals cbCtx) w
   \<and> cbCtx_DoRetrieve record' cbCtx w = DoRetrieve record' (as_globals cbCtx) w
   \<and> cbCtx_DoCreate Marshal module' valuemap cbCtx w
       = DoCreate Marshal module' valuemap (as_globals cbCtx) w
   \<and> cbCtx_DoUpdate Marshal module' valuemap cbCtx w
       = DoUpdate Marshal module' valuemap (as_globals cbCtx) w
   \<and> cbCtx_DoRevise Marshal module' valuemap cbCtx w
       = DoRevise Marshal module' valuemap (as_globals cbCtx) w
   \<and> cbCtx_DoDelete record' cbCtx w = DoDelete record' (as_globals cbCtx) w
   \<and> cbCtx_DoInvoke method' params typeofcall cbCtx w
       = DoInvoke method' params typeofcall (as_globals cbCtx) w
   \<and> cbCtx_DoGetRelatedRecords Marshal record' module' relatedModule queryParameters cbCtx w
       = DoGetRelatedRecords Marshal record' module' relatedModule queryParameters
           (as_globals cbCtx) w
   \<and> cbCtx_DoSetRelated Marshal relateThisID withTheseIds cbCtx w
       = DoSetRelated Marshal relateThisID withTheseIds (as_globals cbCtx) w
   \<and> cbCtx_DoLoginPage template language csrf cbCtx w
       = DoLoginPage template language csrf (as_globals cbCtx) w"
proof -
  have init: "as_globals GetCbContext = package_init"
    by (simp add: as_globals_def GetCbContext_def package_init_def)
  have inv1: "as_cbContext (as_globals cbCtx) = cbCtx"
    by (simp add: as_globals_def as_cbContext_def)
  have inv2: "as_globals (as_cbContext g) = g"
    by (simp add: as_globals_def as_cbContext_def)
  have logout: "cbCtx_DoLogout cbCtx w = DoLogout (as_globals cbCtx) w"
    by (simp add: cbCtx_DoLogout_def DoLogout_def cbCtx_docbCall_eq as_globals_simps)
  have columns: "cbCtx_GetResultColumns cbCtx = GetResultColumns (as_globals cbCtx)"
    by (simp add: cbCtx_GetResultColumns_def GetResultColumns_def as_globals_simps)
  have listtypes: "cbCtx_DoListTypes Marshal fieldTypeList cbCtx w
       = DoListTypes Marshal fieldTypeList (as_globals cbCtx) w"
    by (simp add: cbCtx_DoListTypes_def DoListTypes_def cbCtx_docbCall_eq as_globals_simps)
  have describe: "cbCtx_DoDescribe module' cbCtx w = DoDescribe module' (as_globals cbCtx) w"
    by (simp add: cbCtx_DoDescribe_def DoDescribe_def cbCtx_docbCall_eq as_globals_simps)
  have retrieve: "cbCtx_DoRetrieve record' cbCtx w = DoRetrieve record' (as_globals cbCtx) w"
    by (simp add: cbCtx_DoRetrieve_def DoRetrieve_def cbCtx_docbCall_eq as_globals_simps)
  have create: "cbCtx_DoCreate Marshal module' valuemap cbCtx w
       = DoCreate Marshal module' valuemap (as_globals cbCtx) w"
    by (simp add: cbCtx_DoCreate_def DoCreate_def cbCtx_docbCall_eq as_globals_simps
          cong: outcome.case_cong)
  have update: "cbCtx_DoUpdate Marshal module' valuemap cbCtx w
       = DoUpdate Marshal module' valuemap (as_globals cbCtx) w"
    by (simp add: cbCtx_DoUpdate_def DoUpdate_def cbCtx_docbCall_eq as_globals_simps
          cong: outcome.case_cong)
  have revise: "cbCtx_DoRevise Marshal module' valuemap cbCtx w
       = DoRevise Marshal module' valuemap (as_globals cbCtx) w"
    by (simp add: cbCtx_DoRevise_def DoRevise_def cbCtx_docbCall_eq as_globals_simps
          cong: outcome.case_cong)
  have delete: "cbCtx_DoDelete record' cbCtx w = DoDelete record' (as_globals cbCtx) w"
    by (simp add: cbCtx_DoDelete_def DoDelete_def cbCtx_docbCall_eq as_globals_simps)
  have invoke: "cbCtx_DoInvoke method' params typeofcall cbCtx w
       = DoInvoke method' params typeofcall (as_globals cbCtx) w"
    by (simp add: cbCtx_DoInvoke_def DoInvoke_def cbCtx_docbCall_eq as_globals_simps
          cong: option.case_cong)
  have related: "cbCtx_DoGetRelatedRecords Marshal record' module' relatedModule queryParameters cbCtx w
       = DoGetRelatedRecords Marshal record' module' relatedModule queryParameters
           (as_globals cbCtx) w"
    by (simp add: cbCtx_DoGetRelatedRecords_def DoGetRelatedRecords_def cbCtx_docbCall_eq
          as_globals_simps)
  have setrelated: "cbCtx_DoSetRelated Marshal relateThisID withTheseIds cbCtx w
       = DoSetRelated Marshal relateThisID withTheseIds (as_globals cbCtx) w"
    by (simp add: cbCtx_DoSetRelated_def DoSetRelated_def cbCtx_docbCall_eq as_globals_simps)
  have loginpage: "cbCtx_DoLoginPage template language csrf cbCtx w
       = DoLoginPage template language csrf (as_globals cbCtx) w"
    by (simp add: cbCtx_DoLoginPage_def DoLoginPage_def cbCtx_docbCall_eq as_globals_simps)
  from init inv1 inv2 cbCtx_doChallenge_eq cbCtx_DoLogin_eq logout cbCtx_DoQuery_eq columns
    listtypes describe retrieve create update revise delete invoke related setrelated loginpage
  show ?thesis by blast
qed


end
